theory Spec2Isabelle
  imports Complex_Main "HOL-Library.Multiset" "HOL-Library.List_Lexorder" "HOL-Library.Char_ord"
begin

section \<open>The number type of the front end\<close>

text \<open>
  Every \<^verbatim>\<open>number\<close> of the TypeScript sources is an IEEE-754 binary64 value. A finite
  value is kept as the rational it denotes; the two infinities and NaN are constructors of
  their own. The sign of zero is not kept: the totals below start from \<^verbatim>\<open>0\<close> and only add,
  and \<^verbatim>\<open>x + (-0)\<close> is \<^verbatim>\<open>x\<close> and \<^verbatim>\<open>0 + (-0)\<close> is \<^verbatim>\<open>0\<close>, so a negative zero never reaches a
  result.
\<close>

datatype number = Finite rat | PosInfinity | NegInfinity | NaN

text \<open>Number of binary digits of a positive integer (0 for the others).\<close>

function bit_length :: "int \<Rightarrow> int" where
  "bit_length k = (if k \<le> 0 then 0 else 1 + bit_length (k div 2))"
  by pat_completeness auto
termination
  by (relation "measure nat") auto

declare bit_length.simps [simp del]

text \<open>\<open>ilog2 x\<close> is the exponent of the leading binary digit of a positive rational.\<close>

definition ilog2 :: "rat \<Rightarrow> int" where
  "ilog2 x = (if 1 \<le> x then bit_length \<lfloor>x\<rfloor> - 1
              else - bit_length (\<lceil>1 / x\<rceil> - 1))"

definition pow2 :: "int \<Rightarrow> rat" where
  "pow2 k = (if 0 \<le> k then 2 ^ nat k else 1 / 2 ^ nat (- k))"

text \<open>Rounding to the nearest integer, a tie going to the even neighbour.\<close>

definition rne :: "rat \<Rightarrow> int" where
  "rne q = (let f = \<lfloor>q\<rfloor>; d = q - of_int f
            in if d < 1 / 2 then f else if 1 / 2 < d then f + 1
               else if even f then f else f + 1)"

text \<open>
  The binary64 value nearest to an exact result: 53 significant binary digits, the
  spacing never below \<open>2 ^ -1074\<close> (subnormal range), ties to even, and an infinity once the
  rounded magnitude reaches \<open>2 ^ 1024\<close>.
\<close>

definition round_double :: "rat \<Rightarrow> number" where
  "round_double x =
     (if x = 0 then Finite 0
      else let e = max (ilog2 \<bar>x\<bar>) (- 1022);
               u = pow2 (e - 52);
               r = of_int (rne (x / u)) * u
           in if 2 ^ 1024 \<le> \<bar>r\<bar> then (if 0 < x then PosInfinity else NegInfinity)
              else Finite r)"

instantiation number :: "{zero, plus, times}"
begin

definition zero_number :: number where
  "zero_number = Finite 0"

fun plus_number :: "number \<Rightarrow> number \<Rightarrow> number" where
  "plus_number (Finite x) (Finite y) = round_double (x + y)"
| "plus_number (Finite x) PosInfinity = PosInfinity"
| "plus_number (Finite x) NegInfinity = NegInfinity"
| "plus_number PosInfinity (Finite y) = PosInfinity"
| "plus_number PosInfinity PosInfinity = PosInfinity"
| "plus_number PosInfinity NegInfinity = NaN"
| "plus_number NegInfinity (Finite y) = NegInfinity"
| "plus_number NegInfinity NegInfinity = NegInfinity"
| "plus_number NegInfinity PosInfinity = NaN"
| "plus_number NaN b = NaN"
| "plus_number a NaN = NaN"

fun times_number :: "number \<Rightarrow> number \<Rightarrow> number" where
  "times_number (Finite x) (Finite y) = round_double (x * y)"
| "times_number (Finite x) PosInfinity =
     (if x = 0 then NaN else if 0 < x then PosInfinity else NegInfinity)"
| "times_number (Finite x) NegInfinity =
     (if x = 0 then NaN else if 0 < x then NegInfinity else PosInfinity)"
| "times_number PosInfinity (Finite y) =
     (if y = 0 then NaN else if 0 < y then PosInfinity else NegInfinity)"
| "times_number NegInfinity (Finite y) =
     (if y = 0 then NaN else if 0 < y then NegInfinity else PosInfinity)"
| "times_number PosInfinity PosInfinity = PosInfinity"
| "times_number PosInfinity NegInfinity = NegInfinity"
| "times_number NegInfinity PosInfinity = NegInfinity"
| "times_number NegInfinity NegInfinity = PosInfinity"
| "times_number NaN b = NaN"
| "times_number a NaN = NaN"

instance ..

end

text \<open>\<^verbatim>\<open>Number.isInteger\<close>, and the integer a whole number stands for.\<close>

fun isInteger :: "number \<Rightarrow> bool" where
  "isInteger (Finite x) = (of_int \<lfloor>x\<rfloor> = x)"
| "isInteger n = False"

fun int_of_number :: "number \<Rightarrow> int" where
  "int_of_number (Finite x) = \<lfloor>x\<rfloor>"
| "int_of_number n = 0"


section \<open>The RFP store (\<^verbatim>\<open>contexts/RFPContext.tsx\<close>)\<close>

text \<open>
  Field names that several interfaces share (\<^verbatim>\<open>id\<close>, \<^verbatim>\<open>rfpId\<close>, \<^verbatim>\<open>quantity\<close>, \<^verbatim>\<open>status\<close>) or
  that clash with a word of the language (\<^verbatim>\<open>text\<close>, \<^verbatim>\<open>unit\<close>) carry the name of their
  interface as a suffix.
\<close>

record LineItem =
  id_LineItem :: string
  description :: string
  quantity_LineItem :: number
  unit_LineItem :: string

record Requirement =
  id_Requirement :: string
  text_Requirement :: string

datatype RFPStatus = Open | InProgress | Submitted

record RFP =
  id_RFP :: string
  rfpId_RFP :: string
  title :: string
  client :: string
  dueDate :: string
  status_RFP :: RFPStatus
  lineItems :: "LineItem list"
  requirements :: "Requirement list"
  readyForTechnical :: bool
  readyForPricing :: bool

text \<open>
  \<^verbatim>\<open>Partial<RFP>\<close>: each key is present with a value of its type, or absent (the callers
  pass \<^verbatim>\<open>status\<close>, \<^verbatim>\<open>readyForTechnical\<close> or \<^verbatim>\<open>readyForPricing\<close> alone).
\<close>

record PartialRFP =
  p_id :: "string option"
  p_rfpId :: "string option"
  p_title :: "string option"
  p_client :: "string option"
  p_dueDate :: "string option"
  p_status :: "RFPStatus option"
  p_lineItems :: "LineItem list option"
  p_requirements :: "Requirement list option"
  p_readyForTechnical :: "bool option"
  p_readyForPricing :: "bool option"

text \<open>\<^verbatim>\<open>Omit<RFP, 'lineItems' | 'requirements' | 'readyForTechnical' | 'readyForPricing'>\<close>\<close>

record NewRFP =
  n_id :: string
  n_rfpId :: string
  n_title :: string
  n_client :: string
  n_dueDate :: string
  n_status :: RFPStatus

text \<open>\<^verbatim>\<open>Omit<LineItem, 'id'>\<close> and \<^verbatim>\<open>Omit<Requirement, 'id'>\<close>\<close>

record NewLineItem =
  n_description :: string
  n_quantity :: number
  n_unit :: string

record NewRequirement =
  n_text :: string

text \<open>The object spread \<^verbatim>\<open>{ ...rfp, ...updates }\<close>: a key of \<open>updates\<close> wins.\<close>

definition spread_RFP :: "RFP \<Rightarrow> PartialRFP \<Rightarrow> RFP" where
  "spread_RFP rfp updates =
     \<lparr> id_RFP = (case p_id updates of None \<Rightarrow> id_RFP rfp | Some v \<Rightarrow> v),
       rfpId_RFP = (case p_rfpId updates of None \<Rightarrow> rfpId_RFP rfp | Some v \<Rightarrow> v),
       title = (case p_title updates of None \<Rightarrow> title rfp | Some v \<Rightarrow> v),
       client = (case p_client updates of None \<Rightarrow> client rfp | Some v \<Rightarrow> v),
       dueDate = (case p_dueDate updates of None \<Rightarrow> dueDate rfp | Some v \<Rightarrow> v),
       status_RFP = (case p_status updates of None \<Rightarrow> status_RFP rfp | Some v \<Rightarrow> v),
       lineItems = (case p_lineItems updates of None \<Rightarrow> lineItems rfp | Some v \<Rightarrow> v),
       requirements =
         (case p_requirements updates of None \<Rightarrow> requirements rfp | Some v \<Rightarrow> v),
       readyForTechnical =
         (case p_readyForTechnical updates of None \<Rightarrow> readyForTechnical rfp | Some v \<Rightarrow> v),
       readyForPricing =
         (case p_readyForPricing updates of None \<Rightarrow> readyForPricing rfp | Some v \<Rightarrow> v) \<rparr>"

text \<open>
  The provider's state is the list \<^verbatim>\<open>rfps\<close>. Every operation takes the state and returns
  its result with the state \<^verbatim>\<open>setRfps\<close> leaves behind (the state itself where the operation
  never calls \<^verbatim>\<open>setRfps\<close>). \<^verbatim>\<open>Date.now().toString()\<close> is the argument \<open>now\<close>.
\<close>

definition addRFP :: "NewRFP \<Rightarrow> RFP list \<Rightarrow> unit \<times> RFP list" where
  "addRFP rfp rfps =
     ((), rfps @ [\<lparr> id_RFP = n_id rfp, rfpId_RFP = n_rfpId rfp, title = n_title rfp,
                    client = n_client rfp, dueDate = n_dueDate rfp, status_RFP = n_status rfp,
                    lineItems = [], requirements = [],
                    readyForTechnical = False, readyForPricing = False \<rparr>])"

definition updateRFP :: "string \<Rightarrow> PartialRFP \<Rightarrow> RFP list \<Rightarrow> unit \<times> RFP list" where
  "updateRFP ident updates rfps =
     ((), map (\<lambda>rfp. if id_RFP rfp = ident then spread_RFP rfp updates else rfp) rfps)"

definition getRFPById :: "string \<Rightarrow> RFP list \<Rightarrow> RFP option \<times> RFP list" where
  "getRFPById ident rfps = (find (\<lambda>rfp. id_RFP rfp = ident) rfps, rfps)"

definition addLineItem :: "string \<Rightarrow> string \<Rightarrow> NewLineItem \<Rightarrow> RFP list \<Rightarrow> unit \<times> RFP list" where
  "addLineItem now rfpId lineItem rfps =
     ((), map (\<lambda>rfp.
            if id_RFP rfp = rfpId
            then rfp\<lparr> lineItems := lineItems rfp @
                   [\<lparr> id_LineItem = now, description = n_description lineItem,
                      quantity_LineItem = n_quantity lineItem,
                      unit_LineItem = n_unit lineItem \<rparr>] \<rparr>
            else rfp) rfps)"

definition addRequirement ::
  "string \<Rightarrow> string \<Rightarrow> NewRequirement \<Rightarrow> RFP list \<Rightarrow> unit \<times> RFP list" where
  "addRequirement now rfpId requirement rfps =
     ((), map (\<lambda>rfp.
            if id_RFP rfp = rfpId
            then rfp\<lparr> requirements := requirements rfp @
                   [\<lparr> id_Requirement = now, text_Requirement = n_text requirement \<rparr>] \<rparr>
            else rfp) rfps)"

text \<open>An exception that escapes a render.\<close>

datatype RenderError = TypeError | RangeError

text \<open>
  The page \<^verbatim>\<open>RFPDetail\<close> reads the RFP of the route and returns the not-found card when
  \<^verbatim>\<open>!rfp\<close> holds (an RFP object is never falsy). Otherwise it renders the detail page,
  whose header holds \<^verbatim>\<open>format(new Date(rfp.dueDate), 'MMMM dd, yyyy')\<close>: \<^verbatim>\<open>format\<close> throws
  a \<^verbatim>\<open>RangeError\<close> on an invalid date. Whether \<^verbatim>\<open>new Date\<close> of a string is a valid date is
  the parameter \<open>valid_date\<close>.
\<close>

datatype RFPDetailView = RFPNotFound | RFPPage RFP

definition RFPDetail :: "(string \<Rightarrow> bool) \<Rightarrow> string \<Rightarrow> RFP list \<Rightarrow> RenderError + RFPDetailView" where
  "RFPDetail valid_date ident rfps =
     (case fst (getRFPById ident rfps) of
        None \<Rightarrow> Inr RFPNotFound
      | Some rfp \<Rightarrow> if valid_date (dueDate rfp) then Inr (RFPPage rfp) else Inl RangeError)"

text \<open>A store to try the operations on: two RFPs share the id \<open>''a''\<close>.\<close>

definition sample_rfp :: "string \<Rightarrow> string \<Rightarrow> RFP" where
  "sample_rfp ident name =
     \<lparr> id_RFP = ident, rfpId_RFP = ''RFP-2025-001'', title = name, client = ''PSU'',
       dueDate = ''2025-02-15'', status_RFP = Open, lineItems = [], requirements = [],
       readyForTechnical = False, readyForPricing = False \<rparr>"

text \<open>
  For the examples, some strings that \<^verbatim>\<open>new Date\<close> accepts: the dates \<^verbatim>\<open>yyyy-mm-dd\<close> with a
  month from \<^verbatim>\<open>01\<close> to \<^verbatim>\<open>12\<close> and a day from \<^verbatim>\<open>01\<close> to \<^verbatim>\<open>28\<close>.
\<close>

definition digit_between :: "char \<Rightarrow> char \<Rightarrow> char \<Rightarrow> bool" where
  "digit_between lo hi c \<longleftrightarrow> lo \<le> c \<and> c \<le> hi"

definition iso_date :: "string \<Rightarrow> bool" where
  "iso_date d \<longleftrightarrow>
     length d = 10 \<and> d ! 4 = CHR ''-'' \<and> d ! 7 = CHR ''-'' \<and>
     list_all (digit_between CHR ''0'' CHR ''9'') (take 4 d) \<and>
     (d ! 5 = CHR ''0'' \<and> digit_between CHR ''1'' CHR ''9'' (d ! 6) \<or>
      d ! 5 = CHR ''1'' \<and> digit_between CHR ''0'' CHR ''2'' (d ! 6)) \<and>
     (d ! 8 = CHR ''0'' \<and> digit_between CHR ''1'' CHR ''9'' (d ! 9) \<or>
      d ! 8 = CHR ''1'' \<and> digit_between CHR ''0'' CHR ''9'' (d ! 9) \<or>
      d ! 8 = CHR ''2'' \<and> digit_between CHR ''0'' CHR ''8'' (d ! 9))"

definition sample_store :: "RFP list" where
  "sample_store = [sample_rfp ''a'' ''first'', sample_rfp ''b'' ''other'', sample_rfp ''a'' ''second'']"

definition sample_updates :: PartialRFP where
  "sample_updates =
     \<lparr> p_id = None, p_rfpId = None, p_title = None, p_client = None, p_dueDate = None,
       p_status = Some Submitted, p_lineItems = None, p_requirements = None,
       p_readyForTechnical = None, p_readyForPricing = None \<rparr>"


section \<open>The pricing store (\<^verbatim>\<open>PricingProvider\<close>)\<close>

record ProductRow =
  id_ProductRow :: string
  rfpId_ProductRow :: string
  oemSku :: string
  quantity_ProductRow :: number
  unitPrice :: number

record TestRow =
  id_TestRow :: string
  rfpId_TestRow :: string
  testName :: string
  numberOfTests :: number
  pricePerTest :: number

text \<open>
  The state is the pair of lists \<^verbatim>\<open>products\<close> and \<^verbatim>\<open>tests\<close>. A new row comes without an
  id (\<^verbatim>\<open>Omit<ProductRow, 'id'>\<close>): the id of the argument is not read and is set to
  \<open>now\<close>, which stands for \<^verbatim>\<open>Date.now().toString()\<close>.
\<close>

definition addProduct :: "string \<Rightarrow> ProductRow \<Rightarrow> ProductRow list \<Rightarrow> ProductRow list" where
  "addProduct now product products = products @ [product\<lparr> id_ProductRow := now \<rparr>]"

definition addTest :: "string \<Rightarrow> TestRow \<Rightarrow> TestRow list \<Rightarrow> TestRow list" where
  "addTest now test tests = tests @ [test\<lparr> id_TestRow := now \<rparr>]"

definition getProductsByRFP :: "ProductRow list \<Rightarrow> string \<Rightarrow> ProductRow list" where
  "getProductsByRFP products rfpId = filter (\<lambda>p. rfpId_ProductRow p = rfpId) products"

definition getTestsByRFP :: "TestRow list \<Rightarrow> string \<Rightarrow> TestRow list" where
  "getTestsByRFP tests rfpId = filter (\<lambda>t. rfpId_TestRow t = rfpId) tests"

text \<open>\<^verbatim>\<open>reduce((sum, p) => sum + ..., 0)\<close> is a left fold from \<open>0\<close>.\<close>

definition getTotalMaterialCost :: "ProductRow list \<Rightarrow> string \<Rightarrow> number" where
  "getTotalMaterialCost products rfpId =
     foldl (\<lambda>sum p. sum + quantity_ProductRow p * unitPrice p) 0
       (getProductsByRFP products rfpId)"

definition getTotalTestCost :: "TestRow list \<Rightarrow> string \<Rightarrow> number" where
  "getTotalTestCost tests rfpId =
     foldl (\<lambda>sum t. sum + numberOfTests t * pricePerTest t) 0 (getTestsByRFP tests rfpId)"

definition getGrandTotal :: "ProductRow list \<Rightarrow> TestRow list \<Rightarrow> string \<Rightarrow> number" where
  "getGrandTotal products tests rfpId =
     getTotalMaterialCost products rfpId + getTotalTestCost tests rfpId"


text \<open>
  The reading the specification gives of the tests cost: the price of each applied test,
  added up once per test, with no test count. It is stated here to be compared with
  \<open>getTotalTestCost\<close>.
\<close>

definition plain_test_price_sum :: "TestRow list \<Rightarrow> string \<Rightarrow> number" where
  "plain_test_price_sum tests rfpId =
     foldl (\<lambda>sum t. sum + pricePerTest t) 0 (getTestsByRFP tests rfpId)"

text \<open>
  Rows whose quantities, counts and prices are whole numbers, with row amounts whose
  magnitudes add up to less than \<open>2 ^ 53\<close>: on such rows no binary64 operation of the
  totals rounds.
\<close>

definition product_amount :: "ProductRow \<Rightarrow> int" where
  "product_amount p = int_of_number (quantity_ProductRow p) * int_of_number (unitPrice p)"

definition test_amount :: "TestRow \<Rightarrow> int" where
  "test_amount t = int_of_number (numberOfTests t) * int_of_number (pricePerTest t)"

definition whole_amounts :: "ProductRow list \<Rightarrow> TestRow list \<Rightarrow> string \<Rightarrow> bool" where
  "whole_amounts products tests rfpId \<longleftrightarrow>
     list_all (\<lambda>p. isInteger (quantity_ProductRow p) \<and> isInteger (unitPrice p))
       (getProductsByRFP products rfpId) \<and>
     list_all (\<lambda>t. isInteger (numberOfTests t) \<and> isInteger (pricePerTest t))
       (getTestsByRFP tests rfpId) \<and>
     (\<Sum>p\<leftarrow>getProductsByRFP products rfpId. \<bar>product_amount p\<bar>) +
     (\<Sum>t\<leftarrow>getTestsByRFP tests rfpId. \<bar>test_amount t\<bar>) < 2 ^ 53"

text \<open>
  Rows to try the totals on. \<open>decimal q\<close> is the value of a decimal literal or of
  \<^verbatim>\<open>parseFloat\<close> on a decimal string denoting the rational \<open>q\<close>: the binary64 value nearest
  to it.
\<close>

definition decimal :: "rat \<Rightarrow> number" where
  "decimal q = round_double q"

definition product_row :: "string \<Rightarrow> string \<Rightarrow> number \<Rightarrow> number \<Rightarrow> ProductRow" where
  "product_row ident rfp q u =
     \<lparr> id_ProductRow = ident, rfpId_ProductRow = rfp, oemSku = ''SKU-001'',
       quantity_ProductRow = q, unitPrice = u \<rparr>"

definition test_row :: "string \<Rightarrow> string \<Rightarrow> number \<Rightarrow> number \<Rightarrow> TestRow" where
  "test_row ident rfp n u =
     \<lparr> id_TestRow = ident, rfpId_TestRow = rfp, testName = ''Insulation Resistance Test'',
       numberOfTests = n, pricePerTest = u \<rparr>"

definition tenths :: "ProductRow list" where
  "tenths = [product_row ''1'' ''r'' (Finite 1) (decimal (1 / 10)),
             product_row ''2'' ''r'' (Finite 1) (decimal (2 / 10)),
             product_row ''3'' ''r'' (Finite 1) (decimal (3 / 10))]"



section \<open>The workflow page (\<^verbatim>\<open>Workflow\<close>)\<close>

text \<open>
  A value of type \<^verbatim>\<open>any\<close> that came out of \<^verbatim>\<open>response.json()\<close> is a JSON value. An
  optional field is an \<open>option\<close>: \<open>None\<close> when the key is absent.
\<close>

datatype json = JNull | JBool bool | JNumber number | JString string
  | JArray "json list" | JObject "(string \<times> json) list"

text \<open>The union \<^verbatim>\<open>'pending' | 'running' | 'completed' | 'error'\<close> of \<^verbatim>\<open>WorkflowStep.status\<close>.\<close>

datatype StepStatus = pending | running | completed | error

record WorkflowStep =
  step_name :: string
  agent_name :: string
  status :: StepStatus
  output_WorkflowStep :: "json option"
  summary :: "string option"
  error_WorkflowStep :: "string option"

record WorkflowProgress =
  workflow_id :: string
  current_step :: number
  total_steps :: number
  steps :: "WorkflowStep list"
  final_response :: "json option"

text \<open>Truthiness of a possibly absent JSON value, as \<^verbatim>\<open>!workflow.final_response\<close> tests it.\<close>

fun truthy :: "json option \<Rightarrow> bool" where
  "truthy None = False"
| "truthy (Some JNull) = False"
| "truthy (Some (JBool b)) = b"
| "truthy (Some (JNumber n)) = (n \<noteq> NaN \<and> n \<noteq> Finite 0)"
| "truthy (Some (JString s)) = (s \<noteq> [])"
| "truthy (Some (JArray xs)) = True"
| "truthy (Some (JObject kvs)) = True"

text \<open>\<^verbatim>\<open>a >= b\<close> on numbers: false as soon as one side is NaN.\<close>

fun number_ge :: "number \<Rightarrow> number \<Rightarrow> bool" where
  "number_ge NaN b = False"
| "number_ge a NaN = False"
| "number_ge PosInfinity b = True"
| "number_ge a NegInfinity = True"
| "number_ge (Finite x) (Finite y) = (y \<le> x)"
| "number_ge (Finite x) PosInfinity = False"
| "number_ge NegInfinity (Finite y) = False"
| "number_ge NegInfinity PosInfinity = False"

text \<open>
  The card with the button \<^verbatim>\<open>Execute Next Step\<close> is rendered only when
  \<^verbatim>\<open>!workflow.final_response\<close>; the button is disabled when
  \<^verbatim>\<open>isExecuting || workflow.current_step >= workflow.total_steps\<close>.
\<close>

datatype ButtonState = NotRendered | Disabled | Enabled

definition executeNextButton :: "bool \<Rightarrow> WorkflowProgress \<Rightarrow> ButtonState" where
  "executeNextButton isExecuting workflow =
     (if truthy (final_response workflow) then NotRendered
      else if isExecuting \<or> number_ge (current_step workflow) (total_steps workflow) then Disabled
      else Enabled)"

text \<open>Two progress values that agree on every field but \<^verbatim>\<open>total_steps\<close>.\<close>

definition sample_progress :: "number \<Rightarrow> WorkflowProgress" where
  "sample_progress n =
     \<lparr> workflow_id = ''wf-1'', current_step = Finite 5, total_steps = n,
       steps = [\<lparr> step_name = ''RFP Discovery'', agent_name = ''Sales Agent'',
                   status = completed, output_WorkflowStep = None, summary = None,
                   error_WorkflowStep = None \<rparr>],
       final_response = None \<rparr>"

subsection \<open>What the component returns for a response\<close>

























section \<open>The matching engine\<close>

text \<open>
  Modelled from the spec: the back end (\<^verbatim>\<open>Backend/app\<close>: the agents, the workflow routes
  and their schemas) is not among the sources, so the records of this section and of the
  three sections after it follow sections 3 and 4 of the specification. A requirement
  item, with the position of the item in the parsed sequence as its id.
\<close>

record RequirementItem =
  id_RequirementItem :: nat
  description_RequirementItem :: string
  quantity_RequirementItem :: nat
  unit_RequirementItem :: string

text \<open>Modelled from the spec: a product of the catalog, its attributes as an association list.\<close>

record ProductRecord =
  sku :: string
  attributes :: "(string \<times> string) list"

text \<open>Modelled from the spec: a candidate product with its match percent.\<close>

record MatchCandidate =
  sku_MatchCandidate :: string
  match_percent :: rat

text \<open>Modelled from the spec: the result of matching one requirement item.\<close>

record MatchResult =
  requirement_item_id :: nat
  top_matches :: "MatchCandidate list"
  chosen_sku :: "string option"

text \<open>
  Modelled from the spec: the target attributes of an item are the attributes of the
  vocabulary for which a value is extracted from its description. The extraction of one
  attribute from a description is the parameter \<open>extract\<close>.
\<close>

definition target_attributes :: "string list \<Rightarrow> (string \<Rightarrow> string \<rightharpoonup> string) \<Rightarrow> RequirementItem \<Rightarrow> (string \<times> string) list" where
  "target_attributes vocabulary extract item =
     concat (map (\<lambda>a. case extract (description_RequirementItem item) a of
                          None \<Rightarrow> [] | Some v \<Rightarrow> [(a, v)]) vocabulary)"

text \<open>
  Modelled from the spec: \<open>100 \<times>\<close> the number of target attributes on which the product's
  value equals the target value, over the number of target attributes; \<open>0\<close> when there is
  no target attribute.
\<close>

definition score :: "(string \<times> string) list \<Rightarrow> ProductRecord \<Rightarrow> rat" where
  "score targets p =
     (if targets = [] then 0
      else 100 * of_nat (length (filter (\<lambda>(a, v). map_of (attributes p) a = Some v) targets))
           / of_nat (length targets))"

text \<open>
  Modelled from the spec: the ranking order, descending by match percent and ascending by
  sku (lexical order of the characters) among equal percents.
\<close>

definition ranks_before :: "MatchCandidate \<Rightarrow> MatchCandidate \<Rightarrow> bool" where
  "ranks_before a b \<longleftrightarrow>
     match_percent b < match_percent a \<or>
     (match_percent a = match_percent b \<and> sku_MatchCandidate a \<le> sku_MatchCandidate b)"

text \<open>Modelled from the spec: ranking all candidates, as an insertion sort in that order.\<close>

fun insert_ranked :: "MatchCandidate \<Rightarrow> MatchCandidate list \<Rightarrow> MatchCandidate list" where
  "insert_ranked c [] = [c]"
| "insert_ranked c (d # ds) = (if ranks_before c d then c # d # ds else d # insert_ranked c ds)"

text \<open>Modelled from the spec: the candidates in ranking order.\<close>

fun rank :: "MatchCandidate list \<Rightarrow> MatchCandidate list" where
  "rank [] = []"
| "rank (c # cs) = insert_ranked c (rank cs)"

text \<open>
  Modelled from the spec: \<open>match\<close> scores every product, ranks the candidates, keeps the
  first three and chooses the first one when its percent is above zero.
\<close>

definition match :: "string list \<Rightarrow> (string \<Rightarrow> string \<rightharpoonup> string) \<Rightarrow> RequirementItem \<Rightarrow> ProductRecord list \<Rightarrow> MatchResult" where
  "match vocabulary extract item catalog =
     (let targets = target_attributes vocabulary extract item;
          candidates = map (\<lambda>p. \<lparr> sku_MatchCandidate = sku p, match_percent = score targets p \<rparr>) catalog;
          top = take 3 (rank candidates)
      in \<lparr> requirement_item_id = id_RequirementItem item,
           top_matches = top,
           chosen_sku = (case top of [] \<Rightarrow> None
                         | c # cs \<Rightarrow> if 0 < match_percent c then Some (sku_MatchCandidate c) else None) \<rparr>)"

text \<open>
  The catalog of the tie scenario: with one of three target attributes unmatched,
  \<open>SKU-010\<close> and \<open>SKU-002\<close> both score two thirds; \<open>SKU-007\<close> scores one third and
  \<open>SKU-001\<close> nothing.
\<close>

definition sample_vocabulary :: "string list" where
  "sample_vocabulary = [''conductor_material'', ''insulation'', ''cores'', ''armour_type'']"

definition sample_extract :: "string \<Rightarrow> string \<rightharpoonup> string" where
  "sample_extract d =
     map_of [(''conductor_material'', ''copper''), (''insulation'', ''XLPE''), (''cores'', ''3'')]"

definition sample_product :: "string \<Rightarrow> string \<Rightarrow> string \<Rightarrow> string \<Rightarrow> ProductRecord" where
  "sample_product s m i c =
     \<lparr> sku = s, attributes = [(''conductor_material'', m), (''insulation'', i), (''cores'', c)] \<rparr>"

definition sample_catalog :: "ProductRecord list" where
  "sample_catalog =
     [sample_product ''SKU-010'' ''copper'' ''XLPE'' ''4'',
      sample_product ''SKU-001'' ''aluminium'' ''PVC'' ''4'',
      sample_product ''SKU-002'' ''copper'' ''XLPE'' ''2'',
      sample_product ''SKU-007'' ''copper'' ''PVC'' ''4'']"

definition sample_item :: RequirementItem where
  "sample_item =
     \<lparr> id_RequirementItem = 1, description_RequirementItem = ''3 core copper XLPE cable'',
       quantity_RequirementItem = 100, unit_RequirementItem = ''m'' \<rparr>"

section \<open>The requirement parser\<close>

text \<open>
  Modelled from the spec: the text is split at line breaks and each fragment into tokens
  at whitespace; which characters are whitespace is the parameter \<open>blank\<close>. In each
  fragment a leading list marker (a bullet, or a number closed by a dot or a parenthesis)
  is dropped, a leading number is the quantity and the token after it is the unit when it
  is a unit token (the parameter \<open>unit_token\<close>), the rest is the description. Without a
  leading number the quantity is 1 and the unit empty. Fragments with an empty
  description are dropped.
\<close>

text \<open>Modelled from the spec: the decimal digits of a leading number.\<close>

definition is_digit :: "char \<Rightarrow> bool" where
  "is_digit c \<longleftrightarrow> CHR ''0'' \<le> c \<and> c \<le> CHR ''9''"

text \<open>Modelled from the spec: splitting at boundary markers, which are dropped.\<close>

fun split_on :: "('a \<Rightarrow> bool) \<Rightarrow> 'a list \<Rightarrow> 'a list list" where
  "split_on P [] = [[]]"
| "split_on P (x # xs) =
     (if P x then [] # split_on P xs
      else (case split_on P xs of [] \<Rightarrow> [[x]] | w # ws \<Rightarrow> (x # w) # ws))"

text \<open>Modelled from the spec: the fragments of a text are its lines.\<close>

definition fragments :: "string \<Rightarrow> string list" where
  "fragments input = split_on (\<lambda>c. c = CHR 0x0A) input"

text \<open>Modelled from the spec: the tokens of a fragment are its maximal runs of characters that are not whitespace.\<close>

definition tokens :: "(char \<Rightarrow> bool) \<Rightarrow> string \<Rightarrow> string list" where
  "tokens blank fragment = filter (\<lambda>w. w \<noteq> []) (split_on blank fragment)"

text \<open>Modelled from the spec: a number token is a non-empty run of digits.\<close>

definition is_number :: "string \<Rightarrow> bool" where
  "is_number w \<longleftrightarrow> w \<noteq> [] \<and> list_all is_digit w"

text \<open>Modelled from the spec: the value of a number token.\<close>

definition number_value :: "string \<Rightarrow> nat" where
  "number_value w = foldl (\<lambda>n c. 10 * n + (of_char c - 48)) 0 w"

text \<open>Modelled from the spec: an enumerated list marker.\<close>

definition is_list_marker :: "string \<Rightarrow> bool" where
  "is_list_marker w \<longleftrightarrow>
     w = ''-'' \<or> w = ''*'' \<or>
     (w \<noteq> [] \<and> is_number (butlast w) \<and> (last w = CHR ''.'' \<or> last w = CHR '')''))"

text \<open>Modelled from the spec: a fragment without its leading list marker.\<close>

definition strip_list_marker :: "string list \<Rightarrow> string list" where
  "strip_list_marker ws = (case ws of [] \<Rightarrow> [] | w # rest \<Rightarrow> if is_list_marker w then rest else ws)"

text \<open>Modelled from the spec: the description is the remaining tokens, joined by single spaces.\<close>

fun unwords :: "string list \<Rightarrow> string" where
  "unwords [] = []"
| "unwords [w] = w"
| "unwords (w # ws) = w @ '' '' @ unwords ws"

text \<open>Modelled from the spec: quantity, unit and description of one fragment.\<close>

definition parse_fragment ::
  "(char \<Rightarrow> bool) \<Rightarrow> (string \<Rightarrow> bool) \<Rightarrow> string \<Rightarrow> nat \<times> string \<times> string" where
  "parse_fragment blank unit_token fragment =
     (case strip_list_marker (tokens blank fragment) of
        [] \<Rightarrow> (1, [], [])
      | q # rest \<Rightarrow>
          if is_number q
          then (case rest of
                  [] \<Rightarrow> (number_value q, [], [])
                | u # rest' \<Rightarrow>
                    if unit_token u then (number_value q, u, unwords rest')
                    else (number_value q, [], unwords rest))
          else (1, [], unwords (q # rest)))"

text \<open>Modelled from the spec: the parser, numbering the items it keeps from 1.\<close>

definition parse_requirements ::
  "(char \<Rightarrow> bool) \<Rightarrow> (string \<Rightarrow> bool) \<Rightarrow> string \<Rightarrow> RequirementItem list" where
  "parse_requirements blank unit_token input =
     map (\<lambda>(i, q, u, d).
            \<lparr> id_RequirementItem = Suc i, description_RequirementItem = d,
              quantity_RequirementItem = q, unit_RequirementItem = u \<rparr>)
       (enumerate 0
          (filter (\<lambda>(q, u, d). d \<noteq> []) (map (parse_fragment blank unit_token) (fragments input))))"

section \<open>The pricing engine and the consolidation\<close>

text \<open>Modelled from the spec: a priced item; amounts are binary64 numbers, as in the front end.\<close>

record PricedItem =
  requirement_item_id_PricedItem :: nat
  chosen_sku_PricedItem :: "string option"
  quantity_PricedItem :: nat
  unit_price :: number
  material_cost :: number
  tests_applied :: "string list"
  tests_cost :: number
  total_cost :: number

text \<open>
  Modelled from the spec: \<open>price\<close>. No chosen sku gives a line of zeros; a sku or a test
  missing from its price table counts as \<open>0\<close> (the warning the specification asks for is
  not part of the priced item).
\<close>

definition price ::
  "MatchResult \<Rightarrow> RequirementItem \<Rightarrow> (string \<rightharpoonup> number) \<Rightarrow> (string \<rightharpoonup> number) \<Rightarrow>
   (string \<rightharpoonup> string list) \<Rightarrow> PricedItem" where
  "price m item unit_prices test_prices applicable_tests =
     (case chosen_sku m of
        None \<Rightarrow>
          \<lparr> requirement_item_id_PricedItem = id_RequirementItem item,
            chosen_sku_PricedItem = None,
            quantity_PricedItem = quantity_RequirementItem item,
            unit_price = 0, material_cost = 0, tests_applied = [], tests_cost = 0,
            total_cost = 0 \<rparr>
      | Some s \<Rightarrow>
          (let up = (case unit_prices s of None \<Rightarrow> 0 | Some v \<Rightarrow> v);
               mc = round_double (of_nat (quantity_RequirementItem item)) * up;
               ts = (case applicable_tests s of None \<Rightarrow> [] | Some l \<Rightarrow> l);
               tc = foldl (\<lambda>sum t. sum + (case test_prices t of None \<Rightarrow> 0 | Some v \<Rightarrow> v)) 0 ts
           in \<lparr> requirement_item_id_PricedItem = id_RequirementItem item,
                chosen_sku_PricedItem = Some s,
                quantity_PricedItem = quantity_RequirementItem item,
                unit_price = up, material_cost = mc, tests_applied = ts, tests_cost = tc,
                total_cost = mc + tc \<rparr>))"

text \<open>Modelled from the spec: the catalog store, its tables as maps keyed by sku or test name.\<close>

record CatalogStore =
  products_catalog :: "ProductRecord list"
  unit_prices_catalog :: "string \<rightharpoonup> number"
  test_prices_catalog :: "string \<rightharpoonup> number"
  applicable_tests_catalog :: "string \<rightharpoonup> string list"

text \<open>Modelled from the spec: the final bid, technical items joined with their requirement item.\<close>

record FinalBid =
  rfp_id :: string
  rfp_title :: string
  rfp_due_date :: string
  scope_of_supply :: string
  technical_items :: "(MatchResult \<times> RequirementItem) list"
  pricing :: "PricedItem list"
  total_bid_value :: number
  narrative_summary :: string

text \<open>
  Modelled from the spec: the final bid of a scope of supply. The items are parsed,
  matched and priced in their order, and the total bid value is the plain sum of the
  total costs. The narrative comes from the summary service.
\<close>

definition consolidate ::
  "string list \<Rightarrow> (string \<Rightarrow> string \<rightharpoonup> string) \<Rightarrow> (char \<Rightarrow> bool) \<Rightarrow> (string \<Rightarrow> bool) \<Rightarrow>
   CatalogStore \<Rightarrow> string \<Rightarrow> string \<Rightarrow> string \<Rightarrow> string \<Rightarrow> string \<Rightarrow> FinalBid" where
  "consolidate vocabulary extract blank unit_token catalog ident name due scope narrative =
     (let items = parse_requirements blank unit_token scope;
          technical = map (\<lambda>item. (match vocabulary extract item (products_catalog catalog), item)) items;
          priced = map (\<lambda>(m, item). price m item (unit_prices_catalog catalog)
                          (test_prices_catalog catalog) (applicable_tests_catalog catalog)) technical
      in \<lparr> rfp_id = ident, rfp_title = name, rfp_due_date = due, scope_of_supply = scope,
           technical_items = technical, pricing = priced,
           total_bid_value = foldl (\<lambda>sum p. sum + total_cost p) 0 priced,
           narrative_summary = narrative \<rparr>)"

section \<open>The step orchestrator\<close>

text \<open>
  Modelled from the spec: the usage errors of the orchestrator. The instances below have
  the fields of section 3 and their steps the fields of \<open>WorkflowStep\<close>; the component of
  a step returns an error text, or an output with its summary.
\<close>

datatype OrchestratorError = NotFoundError | AlreadyCompletedError

text \<open>Modelled from the spec: a workflow instance; \<open>'b\<close> is the type of the final bid it stores.\<close>

record 'b WorkflowInstance =
  workflow_id_WorkflowInstance :: string
  steps_WorkflowInstance :: "WorkflowStep list"
  current_step_WorkflowInstance :: nat
  final_response_WorkflowInstance :: "'b option"

text \<open>Modelled from the spec: what the component of a step returns.\<close>

datatype StepOutcome = StepFailed string | StepSucceeded json string

text \<open>
  Modelled from the spec: \<open>start\<close> stores a new instance whose steps, one per entry of the
  plan, are all pending.
\<close>

definition start ::
  "string \<Rightarrow> (string \<times> string) list \<Rightarrow> (string \<rightharpoonup> 'b WorkflowInstance) \<Rightarrow>
   'b WorkflowInstance \<times> (string \<rightharpoonup> 'b WorkflowInstance)" where
  "start wid plan store =
     (let w = \<lparr> workflow_id_WorkflowInstance = wid,
                 steps_WorkflowInstance =
                   map (\<lambda>(n, a). \<lparr> step_name = n, agent_name = a, status = pending,
                                    output_WorkflowStep = None, summary = None,
                                    error_WorkflowStep = None \<rparr>) plan,
                 current_step_WorkflowInstance = 0,
                 final_response_WorkflowInstance = None \<rparr>
      in (w, store(wid \<mapsto> w)))"

text \<open>
  Modelled from the spec: \<open>executeNext\<close>. The component of the step at \<open>current_step\<close> is
  the parameter \<open>run\<close>, given the index of the step and the outputs recorded so far; the
  assembly of the final bid from the outputs is the parameter \<open>assemble\<close>. The status
  \<open>running\<close> lasts only while the component runs and is not seen between two calls. An
  instance with no response and no step left, which \<open>start\<close> and \<open>executeNext\<close> never
  produce from a non-empty plan, is returned as it is.
\<close>

definition executeNext ::
  "(nat \<Rightarrow> json option list \<Rightarrow> StepOutcome) \<Rightarrow> (json option list \<Rightarrow> 'b) \<Rightarrow>
   (string \<rightharpoonup> 'b WorkflowInstance) \<Rightarrow> string \<Rightarrow>
   OrchestratorError + ('b WorkflowInstance \<times> (string \<rightharpoonup> 'b WorkflowInstance))" where
  "executeNext run assemble store wid =
     (case store wid of
        None \<Rightarrow> Inl NotFoundError
      | Some w \<Rightarrow>
          if final_response_WorkflowInstance w \<noteq> None then Inl AlreadyCompletedError
          else if length (steps_WorkflowInstance w) \<le> current_step_WorkflowInstance w
          then Inr (w, store)
          else
            (let i = current_step_WorkflowInstance w;
                 ss = steps_WorkflowInstance w
             in case run i (map output_WorkflowStep ss) of
                  StepFailed msg \<Rightarrow>
                    (let w' = w\<lparr> steps_WorkflowInstance :=
                                  ss[i := (ss ! i)\<lparr> status := error,
                                                    error_WorkflowStep := Some msg \<rparr>] \<rparr>
                     in Inr (w', store(wid \<mapsto> w')))
                | StepSucceeded out sm \<Rightarrow>
                    (let ss' = ss[i := (ss ! i)\<lparr> status := completed,
                                                  output_WorkflowStep := Some out,
                                                  summary := Some sm \<rparr>];
                         w' = w\<lparr> steps_WorkflowInstance := ss',
                                 current_step_WorkflowInstance := i + 1,
                                 final_response_WorkflowInstance :=
                                   (if i + 1 = length ss
                                    then Some (assemble (map output_WorkflowStep ss'))
                                    else None) \<rparr>
                     in Inr (w', store(wid \<mapsto> w')))))"

text \<open>Modelled from the spec: \<open>get\<close> reads an instance.\<close>

definition get :: "(string \<rightharpoonup> 'b WorkflowInstance) \<Rightarrow> string \<Rightarrow> OrchestratorError + 'b WorkflowInstance" where
  "get store wid = (case store wid of None \<Rightarrow> Inl NotFoundError | Some w \<Rightarrow> Inr w)"

text \<open>A two-step plan, and components that fail or succeed at every step.\<close>

definition sample_plan :: "(string \<times> string) list" where
  "sample_plan = [(''pricing'', ''Pricing Agent''), (''consolidation'', ''Main Agent'')]"

definition failing :: "nat \<Rightarrow> json option list \<Rightarrow> StepOutcome" where
  "failing i outputs = StepFailed ''timeout''"

definition succeeding :: "nat \<Rightarrow> json option list \<Rightarrow> StepOutcome" where
  "succeeding i outputs = StepSucceeded (JObject []) ''done''"

definition outputs_as_bid :: "json option list \<Rightarrow> json" where
  "outputs_as_bid outputs = JArray (map (\<lambda>out. case out of None \<Rightarrow> JNull | Some j \<Rightarrow> j) outputs)"


text \<open>A stored instance of the two-step plan, standing at a given step.\<close>

definition sample_instance :: "nat \<Rightarrow> json WorkflowInstance" where
  "sample_instance n = (fst (start ''wf-1'' sample_plan Map.empty))\<lparr> current_step_WorkflowInstance := n \<rparr>"

definition sample_workflows :: "nat \<Rightarrow> (string \<rightharpoonup> json WorkflowInstance)" where
  "sample_workflows n = [''wf-1'' \<mapsto> sample_instance n]"

text \<open>
  The whitespace characters of ASCII (tab, line feed, vertical tab, form feed, carriage
  return, space), a scope of supply made of them only, and a catalog store for it.
\<close>

definition is_space :: "char \<Rightarrow> bool" where
  "is_space c \<longleftrightarrow>
     c = CHR 0x09 \<or> c = CHR 0x0A \<or> c = CHR 0x0B \<or> c = CHR 0x0C \<or> c = CHR 0x0D \<or> c = CHR '' ''"

definition blank_scope :: string where
  "blank_scope = [CHR '' '', CHR 0x0C, CHR 0x0A, CHR 0x09, CHR 0x0B, CHR 0x0D, CHR '' '']"

definition sample_store_catalog :: CatalogStore where
  "sample_store_catalog =
     \<lparr> products_catalog = sample_catalog,
       unit_prices_catalog = [''SKU-002'' \<mapsto> Finite 1500],
       test_prices_catalog = [''Insulation Resistance Test'' \<mapsto> Finite 500],
       applicable_tests_catalog = [''SKU-002'' \<mapsto> [''Insulation Resistance Test'']] \<rparr>"


section \<open>Properties of the RFP store\<close>

lemma find_first_index:
  "find P xs = Some x \<Longrightarrow> \<exists>k<length xs. xs ! k = x \<and> P x \<and> (\<forall>j<k. \<not> P (xs ! j))"
proof (induction xs)
  case Nil
  then show ?case by simp
next
  case (Cons y ys)
  show ?case
  proof (cases "P y")
    case True
    with Cons.prems have "x = y" by simp
    with True show ?thesis by (intro exI [of _ 0]) simp
  next
    case False
    with Cons.prems have "find P ys = Some x" by simp
    from Cons.IH [OF this] obtain k
      where k: "k < length ys" "ys ! k = x" "P x" "\<forall>j<k. \<not> P (ys ! j)" by blast
    have "\<forall>j<Suc k. \<not> P ((y # ys) ! j)"
      using False k(4) by (auto simp: less_Suc_eq_0_disj)
    with k show ?thesis by (intro exI [of _ "Suc k"]) simp
  qed
qed

text \<open>
  C9. \<^verbatim>\<open>updateRFP\<close>, \<^verbatim>\<open>addLineItem\<close> and \<^verbatim>\<open>addRequirement\<close> called with an id keep the
  number of RFPs of the store, leave every RFP whose id differs from the given one exactly
  as it was and at the position it had, and put the changed RFP at the position of the
  RFP it replaces.
\<close>

theorem store_updates_frame:
  "length (snd (updateRFP i u rfps)) = length rfps \<and>
   length (snd (addLineItem now i li rfps)) = length rfps \<and>
   length (snd (addRequirement now i rq rfps)) = length rfps \<and>
   (\<forall>k<length rfps.
      (id_RFP (rfps ! k) \<noteq> i \<longrightarrow>
         snd (updateRFP i u rfps) ! k = rfps ! k \<and>
         snd (addLineItem now i li rfps) ! k = rfps ! k \<and>
         snd (addRequirement now i rq rfps) ! k = rfps ! k) \<and>
      (id_RFP (rfps ! k) = i \<longrightarrow>
         snd (updateRFP i u rfps) ! k = spread_RFP (rfps ! k) u \<and>
         snd (addLineItem now i li rfps) ! k =
           (rfps ! k)\<lparr> lineItems := lineItems (rfps ! k) @
              [\<lparr> id_LineItem = now, description = n_description li,
                 quantity_LineItem = n_quantity li, unit_LineItem = n_unit li \<rparr>] \<rparr> \<and>
         snd (addRequirement now i rq rfps) ! k =
           (rfps ! k)\<lparr> requirements := requirements (rfps ! k) @
              [\<lparr> id_Requirement = now, text_Requirement = n_text rq \<rparr>] \<rparr>))"
  by (simp add: updateRFP_def addLineItem_def addRequirement_def)

theorem store_updates_frame_witness:
  "1 < length sample_store \<and> id_RFP (sample_store ! 1) \<noteq> ''a'' \<and>
   id_RFP (sample_store ! 0) = ''a'' \<and>
   length (snd (updateRFP ''a'' sample_updates sample_store)) = 3 \<and>
   snd (updateRFP ''a'' sample_updates sample_store) ! 1 = sample_rfp ''b'' ''other'' \<and>
   snd (addLineItem ''1700000000000'' ''a''
          \<lparr> n_description = ''cable'', n_quantity = Finite 100, n_unit = ''m'' \<rparr>
          sample_store) ! 1 = sample_rfp ''b'' ''other'' \<and>
   snd (addRequirement ''1700000000000'' ''a'' \<lparr> n_text = ''XLPE'' \<rparr> sample_store) ! 1 =
     sample_rfp ''b'' ''other'' \<and>
   status_RFP (snd (updateRFP ''a'' sample_updates sample_store) ! 0) = Submitted"
  using store_updates_frame [of "''a''" sample_updates sample_store "''1700000000000''"
      "\<lparr> n_description = ''cable'', n_quantity = Finite 100, n_unit = ''m'' \<rparr>"
      "\<lparr> n_text = ''XLPE'' \<rparr>"]
  by (simp add: sample_store_def sample_rfp_def sample_updates_def spread_RFP_def)

text \<open>
  C10. \<^verbatim>\<open>getRFPById\<close> leaves the store as it is; its result is absent exactly when no RFP
  of the store has the id, and otherwise is the first RFP of the store with that id. The
  page \<^verbatim>\<open>RFPDetail\<close> shows the not-found card exactly in the absent case; for an RFP
  that is found it shows the page of that RFP, or throws when the due date of the RFP is
  not a valid date.
\<close>

theorem getRFPById_first_or_absent:
  "snd (getRFPById i rfps) = rfps \<and>
   (fst (getRFPById i rfps) = None \<longleftrightarrow> (\<forall>r\<in>set rfps. id_RFP r \<noteq> i)) \<and>
   (\<forall>r. fst (getRFPById i rfps) = Some r \<longrightarrow>
      (\<exists>k<length rfps. rfps ! k = r \<and> id_RFP r = i \<and> (\<forall>j<k. id_RFP (rfps ! j) \<noteq> i))) \<and>
   (RFPDetail valid_date i rfps = Inr RFPNotFound \<longleftrightarrow> (\<forall>r\<in>set rfps. id_RFP r \<noteq> i)) \<and>
   (\<forall>r. fst (getRFPById i rfps) = Some r \<longrightarrow>
      RFPDetail valid_date i rfps =
        (if valid_date (dueDate r) then Inr (RFPPage r) else Inl RangeError))"
proof -
  have absent: "find (\<lambda>rfp. id_RFP rfp = i) rfps = None \<longleftrightarrow> (\<forall>r\<in>set rfps. id_RFP r \<noteq> i)"
    by (auto simp: find_None_iff)
  have first: "\<exists>k<length rfps. rfps ! k = r \<and> id_RFP r = i \<and> (\<forall>j<k. id_RFP (rfps ! j) \<noteq> i)"
    if "find (\<lambda>rfp. id_RFP rfp = i) rfps = Some r" for r
    using find_first_index [OF that] by simp
  have page: "RFPDetail valid_date i rfps = Inr RFPNotFound \<longleftrightarrow>
      find (\<lambda>rfp. id_RFP rfp = i) rfps = None"
    by (simp add: RFPDetail_def getRFPById_def split: option.splits)
  show ?thesis
    using absent first page by (simp add: getRFPById_def RFPDetail_def)
qed

theorem getRFPById_first_or_absent_witness:
  "fst (getRFPById ''a'' sample_store) = Some (sample_rfp ''a'' ''first'') \<and>
   snd (getRFPById ''a'' sample_store) = sample_store \<and>
   iso_date (dueDate (sample_rfp ''a'' ''first'')) \<and>
   RFPDetail iso_date ''a'' sample_store = Inr (RFPPage (sample_rfp ''a'' ''first'')) \<and>
   fst (getRFPById ''a'' (snd (updateRFP ''a'' (sample_updates\<lparr> p_dueDate := Some ''soon'' \<rparr>) sample_store))) =
     Some (spread_RFP (sample_rfp ''a'' ''first'') (sample_updates\<lparr> p_dueDate := Some ''soon'' \<rparr>)) \<and>
   RFPDetail iso_date ''a''
     (snd (updateRFP ''a'' (sample_updates\<lparr> p_dueDate := Some ''soon'' \<rparr>) sample_store)) = Inl RangeError \<and>
   ''zz'' \<notin> set (map id_RFP sample_store) \<and>
   fst (getRFPById ''zz'' sample_store) = None \<and>
   RFPDetail iso_date ''zz'' sample_store = Inr RFPNotFound"
  using getRFPById_first_or_absent [of "''a''" sample_store iso_date]
    getRFPById_first_or_absent [of "''zz''" sample_store iso_date]
    getRFPById_first_or_absent [of "''a''"
      "snd (updateRFP ''a'' (sample_updates\<lparr> p_dueDate := Some ''soon'' \<rparr>) sample_store)" iso_date]
  by (simp add: sample_store_def sample_rfp_def getRFPById_def iso_date_def digit_between_def
      updateRFP_def spread_RFP_def sample_updates_def)


section \<open>Binary64 arithmetic on whole numbers\<close>

lemma bit_length_nonneg: "0 \<le> bit_length k"
  by (induction k rule: bit_length.induct) (subst bit_length.simps, simp)

lemma bit_length_pos: "0 < k \<Longrightarrow> 1 \<le> bit_length k"
  using bit_length_nonneg [of "k div 2"] by (subst bit_length.simps) simp

lemma bit_length_le: "k < 2 ^ n \<Longrightarrow> bit_length k \<le> int n"
proof (induction n arbitrary: k)
  case 0
  then show ?case by (subst bit_length.simps) simp
next
  case (Suc n)
  show ?case
  proof (cases "k \<le> 0")
    case True
    then show ?thesis by (subst bit_length.simps) simp
  next
    case False
    from Suc.prems have "k div 2 < 2 ^ n" by simp
    from Suc.IH [OF this] False show ?thesis by (subst bit_length.simps) simp
  qed
qed

lemma rne_of_int: "rne (of_int n) = n"
  by (simp add: rne_def)

lemma pow2_small: "e \<le> 52 \<Longrightarrow> pow2 (e - 52) = 1 / 2 ^ nat (52 - e)"
  by (cases "e = 52") (simp_all add: pow2_def)

lemma round_double_of_int:
  assumes "\<bar>k\<bar> < 2 ^ 53"
  shows "round_double (of_int k) = Finite (of_int k)"
proof (cases "k = 0")
  case True
  then show ?thesis by (simp add: round_double_def)
next
  case False
  define e where "e = bit_length \<bar>k\<bar> - 1"
  define m where "m = nat (52 - e)"
  have pos: "0 < \<bar>k\<bar>" using False by simp
  have e0: "0 \<le> e" using bit_length_pos [OF pos] by (simp add: e_def)
  have e52: "e \<le> 52" using bit_length_le [OF assms] by (simp add: e_def)
  have abs_rat: "\<bar>rat_of_int k\<bar> = of_int \<bar>k\<bar>" by simp
  have one_le: "(1::rat) \<le> of_int \<bar>k\<bar>" using pos by (simp add: of_int_1_le_iff del: of_int_abs)
  have il: "ilog2 \<bar>rat_of_int k\<bar> = e"
    unfolding abs_rat ilog2_def e_def using one_le by (simp del: of_int_abs)
  have u: "pow2 (max e (- 1022) - 52) = 1 / 2 ^ m"
    using e0 pow2_small [OF e52] by (simp add: m_def max_def)
  have q: "rat_of_int k / (1 / 2 ^ m) = of_int (k * 2 ^ m)" by simp
  have r: "of_int (rne (rat_of_int k / (1 / 2 ^ m))) * (1 / 2 ^ m) = rat_of_int k"
    unfolding q rne_of_int by simp
  have small: "\<not> (2::rat) ^ 1024 \<le> \<bar>rat_of_int k\<bar>"
  proof -
    have "\<bar>rat_of_int k\<bar> < 2 ^ 53"
      using assms unfolding abs_rat by (metis of_int_less_iff of_int_numeral of_int_power)
    also have "(2::rat) ^ 53 \<le> 2 ^ 1024" by (rule power_increasing) simp_all
    finally show ?thesis by simp
  qed
  show ?thesis
    unfolding round_double_def Let_def il u r using False small by simp
qed

lemma plus_whole:
  "\<bar>a + b\<bar> < 2 ^ 53 \<Longrightarrow> Finite (of_int a) + Finite (of_int b) = Finite (of_int (a + b))"
  using round_double_of_int [of "a + b"] by simp

lemma times_whole:
  "\<bar>a * b\<bar> < 2 ^ 53 \<Longrightarrow> Finite (of_int a) * Finite (of_int b) = Finite (of_int (a * b))"
  using round_double_of_int [of "a * b"] by simp

lemma isInteger_whole: "isInteger n \<Longrightarrow> n = Finite (of_int (int_of_number n))"
  by (cases n) auto

lemma fold_whole:
  assumes "\<forall>p\<in>set rows. isInteger (f p) \<and> isInteger (g p)"
    and "\<bar>s\<bar> + (\<Sum>p\<leftarrow>rows. \<bar>int_of_number (f p) * int_of_number (g p)\<bar>) < 2 ^ 53"
  shows "foldl (\<lambda>sum p. sum + f p * g p) (Finite (of_int s)) rows =
         Finite (of_int (s + (\<Sum>p\<leftarrow>rows. int_of_number (f p) * int_of_number (g p))))"
  using assms
proof (induction rows arbitrary: s)
  case Nil
  then show ?case by simp
next
  case (Cons p rows)
  define i where "i = int_of_number (f p)"
  define j where "j = int_of_number (g p)"
  define rest where "rest = (\<Sum>p\<leftarrow>rows. \<bar>int_of_number (f p) * int_of_number (g p)\<bar>)"
  have rest0: "0 \<le> rest" unfolding rest_def by (rule sum_list_nonneg) auto
  have bound: "\<bar>s\<bar> + \<bar>i * j\<bar> + rest < 2 ^ 53"
    using Cons.prems(2) by (simp add: i_def j_def rest_def)
  have fp: "f p = Finite (of_int i)" and gp: "g p = Finite (of_int j)"
    using Cons.prems(1) isInteger_whole [of "f p"] isInteger_whole [of "g p"]
    by (simp_all add: i_def j_def)
  have "\<bar>i * j\<bar> < 2 ^ 53" using bound rest0 by linarith
  then have prod: "f p * g p = Finite (of_int (i * j))"
    unfolding fp gp by (rule times_whole)
  have "\<bar>s + i * j\<bar> < 2 ^ 53" using bound rest0 by linarith
  then have step: "Finite (of_int s) + f p * g p = Finite (of_int (s + i * j))"
    unfolding prod by (rule plus_whole)
  have "\<bar>s + i * j\<bar> + rest < 2 ^ 53" using bound by linarith
  then have "foldl (\<lambda>sum p. sum + f p * g p) (Finite (of_int (s + i * j))) rows =
        Finite (of_int (s + i * j + (\<Sum>p\<leftarrow>rows. int_of_number (f p) * int_of_number (g p))))"
    using Cons.prems(1) by (intro Cons.IH) (auto simp: rest_def)
  then show ?case by (simp add: step i_def j_def add.assoc)
qed


subsection \<open>Evaluating the arithmetic on numerals\<close>

lemma floor_rat_numeral:
  "\<lfloor>numeral a / numeral b :: rat\<rfloor> = numeral a div numeral b"
  "\<lfloor>- (numeral a / numeral b) :: rat\<rfloor> = - numeral a div numeral b"
  using floor_divide_of_int_eq [of "numeral a" "numeral b", where ?'a = rat]
    floor_divide_of_int_eq [of "- numeral a" "numeral b", where ?'a = rat]
  by simp_all

lemma ceiling_rat_numeral:
  "\<lceil>numeral a / numeral b :: rat\<rceil> = - (- numeral a div numeral b)"
  "\<lceil>- (numeral a / numeral b) :: rat\<rceil> = - (numeral a div numeral b)"
  unfolding ceiling_def by (simp_all add: floor_rat_numeral)

lemmas number_eval = round_double_def ilog2_def pow2_def rne_def Let_def bit_length.simps
  floor_rat_numeral ceiling_rat_numeral zero_number_def decimal_def

text \<open>
  Ties go to the even neighbour: above \<open>2 ^ 53\<close> only every second integer is a binary64
  value.
\<close>

lemma round_double_samples:
  "round_double (2 ^ 53 + 1) = Finite (2 ^ 53)"
  "round_double (2 ^ 53 + 3) = Finite (2 ^ 53 + 4)"
  "round_double (- (2 ^ 53) - 3) = Finite (- (2 ^ 53) - 4)"
  "round_double (1 / 3) = Finite (6004799503160661 / 2 ^ 54)"
  by (simp_all add: number_eval)

lemmas store_eval = getProductsByRFP_def getTestsByRFP_def getTotalMaterialCost_def
  getTotalTestCost_def getGrandTotal_def product_row_def test_row_def

section \<open>Properties of the pricing store\<close>

lemma sum_list_mset_cong:
  "mset xs = mset ys \<Longrightarrow> (\<Sum>x\<leftarrow>xs. (f x :: int)) = (\<Sum>x\<leftarrow>ys. f x)"
  by (metis mset_map sum_mset_sum_list)

lemma material_whole:
  assumes "list_all (\<lambda>p. isInteger (quantity_ProductRow p) \<and> isInteger (unitPrice p))
             (getProductsByRFP products r)"
    and "(\<Sum>p\<leftarrow>getProductsByRFP products r. \<bar>product_amount p\<bar>) < 2 ^ 53"
  shows "getTotalMaterialCost products r =
         Finite (of_int (\<Sum>p\<leftarrow>getProductsByRFP products r. product_amount p))"
  using fold_whole [of "getProductsByRFP products r" quantity_ProductRow unitPrice 0] assms
  by (simp add: getTotalMaterialCost_def zero_number_def list_all_iff product_amount_def)

lemma tests_whole:
  assumes "list_all (\<lambda>t. isInteger (numberOfTests t) \<and> isInteger (pricePerTest t))
             (getTestsByRFP tests r)"
    and "(\<Sum>t\<leftarrow>getTestsByRFP tests r. \<bar>test_amount t\<bar>) < 2 ^ 53"
  shows "getTotalTestCost tests r =
         Finite (of_int (\<Sum>t\<leftarrow>getTestsByRFP tests r. test_amount t))"
  using fold_whole [of "getTestsByRFP tests r" numberOfTests pricePerTest 0] assms
  by (simp add: getTotalTestCost_def zero_number_def list_all_iff test_amount_def)

lemma grand_total_whole:
  assumes "whole_amounts products tests r"
  shows "getGrandTotal products tests r =
         Finite (of_int ((\<Sum>p\<leftarrow>getProductsByRFP products r. product_amount p) +
                         (\<Sum>t\<leftarrow>getTestsByRFP tests r. test_amount t)))"
proof -
  define M where "M = (\<Sum>p\<leftarrow>getProductsByRFP products r. \<bar>product_amount p\<bar>)"
  define T where "T = (\<Sum>t\<leftarrow>getTestsByRFP tests r. \<bar>test_amount t\<bar>)"
  have M0: "0 \<le> M" unfolding M_def by (rule sum_list_nonneg) auto
  have T0: "0 \<le> T" unfolding T_def by (rule sum_list_nonneg) auto
  have bound: "M + T < 2 ^ 53" using assms by (simp add: whole_amounts_def M_def T_def)
  have m: "\<bar>\<Sum>p\<leftarrow>getProductsByRFP products r. product_amount p\<bar> \<le> M"
    unfolding M_def using sum_list_abs [of "map product_amount (getProductsByRFP products r)"]
    by (simp add: comp_def)
  have t: "\<bar>\<Sum>t\<leftarrow>getTestsByRFP tests r. test_amount t\<bar> \<le> T"
    unfolding T_def using sum_list_abs [of "map test_amount (getTestsByRFP tests r)"]
    by (simp add: comp_def)
  have mat: "getTotalMaterialCost products r =
      Finite (of_int (\<Sum>p\<leftarrow>getProductsByRFP products r. product_amount p))"
    using assms bound T0 by (intro material_whole) (simp_all add: whole_amounts_def M_def)
  have tst: "getTotalTestCost tests r =
      Finite (of_int (\<Sum>t\<leftarrow>getTestsByRFP tests r. test_amount t))"
    using assms bound M0 by (intro tests_whole) (simp_all add: whole_amounts_def T_def)
  have "\<bar>(\<Sum>p\<leftarrow>getProductsByRFP products r. product_amount p) +
         (\<Sum>t\<leftarrow>getTestsByRFP tests r. test_amount t)\<bar> < 2 ^ 53"
    using m t bound by linarith
  then show ?thesis
    unfolding getGrandTotal_def mat tst by (rule plus_whole)
qed

lemma whole_amounts_mset:
  assumes "mset products' = mset products" "mset tests' = mset tests"
  shows "whole_amounts products' tests' r = whole_amounts products tests r"
proof -
  have p: "mset (getProductsByRFP products' r) = mset (getProductsByRFP products r)"
    using assms(1) by (simp add: getProductsByRFP_def)
  have t: "mset (getTestsByRFP tests' r) = mset (getTestsByRFP tests r)"
    using assms(2) by (simp add: getTestsByRFP_def)
  show ?thesis
    unfolding whole_amounts_def list_all_iff
    using mset_eq_setD [OF p] mset_eq_setD [OF t]
      sum_list_mset_cong [OF p, of "\<lambda>p. \<bar>product_amount p\<bar>"]
      sum_list_mset_cong [OF t, of "\<lambda>t. \<bar>test_amount t\<bar>"]
    by simp
qed

text \<open>
  C6 (as amended). The grand total is a left-to-right binary64 sum. When the quantities,
  counts and prices of the rows of an RFP are whole numbers and the magnitudes of the row
  amounts add up to less than \<open>2 ^ 53\<close>, every permutation of the product rows and of the
  test rows gives the same grand total, the exact sum of the row amounts.
\<close>

theorem grand_total_order_independent:
  assumes "whole_amounts products tests r"
    and "mset products' = mset products" and "mset tests' = mset tests"
  shows "getGrandTotal products' tests' r = getGrandTotal products tests r \<and>
         getGrandTotal products tests r =
           Finite (of_int ((\<Sum>p\<leftarrow>getProductsByRFP products r. product_amount p) +
                           (\<Sum>t\<leftarrow>getTestsByRFP tests r. test_amount t)))"
proof -
  have "mset (getProductsByRFP products' r) = mset (getProductsByRFP products r)"
    using assms(2) by (simp add: getProductsByRFP_def)
  then have p: "(\<Sum>p\<leftarrow>getProductsByRFP products' r. product_amount p) =
      (\<Sum>p\<leftarrow>getProductsByRFP products r. product_amount p)"
    by (rule sum_list_mset_cong)
  have "mset (getTestsByRFP tests' r) = mset (getTestsByRFP tests r)"
    using assms(3) by (simp add: getTestsByRFP_def)
  then have t: "(\<Sum>t\<leftarrow>getTestsByRFP tests' r. test_amount t) =
      (\<Sum>t\<leftarrow>getTestsByRFP tests r. test_amount t)"
    by (rule sum_list_mset_cong)
  have "whole_amounts products' tests' r"
    using whole_amounts_mset [OF assms(2) assms(3), of r] assms(1) by (rule iffD2)
  then have "getGrandTotal products' tests' r =
      Finite (of_int ((\<Sum>p\<leftarrow>getProductsByRFP products' r. product_amount p) +
                      (\<Sum>t\<leftarrow>getTestsByRFP tests' r. test_amount t)))"
    by (rule grand_total_whole)
  also have "\<dots> = getGrandTotal products tests r"
    unfolding p t by (rule grand_total_whole [OF assms(1), symmetric])
  finally show ?thesis
    using grand_total_whole [OF assms(1)] by (simp only: simp_thms)
qed

lemma decimal_tenths:
  "decimal (1 / 10) = Finite (3602879701896397 / 36028797018963968)"
  "decimal (2 / 10) = Finite (3602879701896397 / 18014398509481984)"
  "decimal (3 / 10) = Finite (5404319552844595 / 18014398509481984)"
  by (simp_all add: number_eval)

lemma tenths_forward:
  "getGrandTotal tenths [] ''r'' = Finite (1351079888211149 / 2251799813685248)"
  by (simp add: tenths_def store_eval decimal_tenths) (simp add: number_eval)

lemma tenths_backward:
  "getGrandTotal (rev tenths) [] ''r'' = Finite (5404319552844595 / 9007199254740992)"
  by (simp add: tenths_def store_eval decimal_tenths) (simp add: number_eval)

text \<open>
  The claim as stated fails on binary64 values: the product rows with unit prices
  \<^verbatim>\<open>0.1\<close>, \<^verbatim>\<open>0.2\<close>, \<^verbatim>\<open>0.3\<close> (quantity 1) total \<^verbatim>\<open>0.6000000000000001\<close> in this order
  and \<^verbatim>\<open>0.6\<close> in the reverse order.
\<close>

theorem grand_total_order_counterexample:
  "mset (rev tenths) = mset tenths \<and>
   getGrandTotal tenths [] ''r'' = Finite (1351079888211149 / 2251799813685248) \<and>
   getGrandTotal (rev tenths) [] ''r'' = Finite (5404319552844595 / 9007199254740992) \<and>
   getGrandTotal (rev tenths) [] ''r'' \<noteq> getGrandTotal tenths [] ''r''"
  unfolding tenths_forward tenths_backward by simp

theorem grand_total_order_independent_witness:
  "whole_amounts [product_row ''1'' ''r'' (Finite 100) (Finite 1500), product_row ''2'' ''r'' (Finite 3) (Finite 7)]
      [test_row ''3'' ''r'' (Finite 1) (Finite 500)] ''r'' \<and>
   mset [product_row ''2'' ''r'' (Finite 3) (Finite 7), product_row ''1'' ''r'' (Finite 100) (Finite 1500)]
    = mset [product_row ''1'' ''r'' (Finite 100) (Finite 1500), product_row ''2'' ''r'' (Finite 3) (Finite 7)] \<and>
   getGrandTotal [product_row ''2'' ''r'' (Finite 3) (Finite 7), product_row ''1'' ''r'' (Finite 100) (Finite 1500)]
      [test_row ''3'' ''r'' (Finite 1) (Finite 500)] ''r'' = Finite 150521"
proof -
  have w: "whole_amounts [product_row ''1'' ''r'' (Finite 100) (Finite 1500), product_row ''2'' ''r'' (Finite 3) (Finite 7)]
      [test_row ''3'' ''r'' (Finite 1) (Finite 500)] ''r''"
    by (simp add: whole_amounts_def product_amount_def test_amount_def store_eval)
  have m: "mset [product_row ''2'' ''r'' (Finite 3) (Finite 7), product_row ''1'' ''r'' (Finite 100) (Finite 1500)]
    = mset [product_row ''1'' ''r'' (Finite 100) (Finite 1500), product_row ''2'' ''r'' (Finite 3) (Finite 7)]"
    by simp
  have v: "(\<Sum>p\<leftarrow>getProductsByRFP [product_row ''1'' ''r'' (Finite 100) (Finite 1500), product_row ''2'' ''r'' (Finite 3) (Finite 7)] ''r''. product_amount p) +
      (\<Sum>t\<leftarrow>getTestsByRFP [test_row ''3'' ''r'' (Finite 1) (Finite 500)] ''r''. test_amount t) = 150521"
    by (simp add: product_amount_def test_amount_def store_eval)
  from grand_total_order_independent [OF w m refl]
  have "getGrandTotal [product_row ''2'' ''r'' (Finite 3) (Finite 7), product_row ''1'' ''r'' (Finite 100) (Finite 1500)]
      [test_row ''3'' ''r'' (Finite 1) (Finite 500)] ''r'' = Finite 150521"
    unfolding v by simp
  with w m show ?thesis by (simp only: simp_thms)
qed

text \<open>
  C1. The grand total of an RFP is its material cost plus its tests cost, and the material
  cost is the sum, row by row in the order of the store, of quantity times unit price over
  the product rows of the RFP: it is \<open>0\<close> for no rows, and a further row adds its
  quantity times its unit price when it belongs to the RFP and nothing otherwise. Sum
  and product are those of the number type.
\<close>

theorem totals_by_row:
  "getGrandTotal products tests r = getTotalMaterialCost products r + getTotalTestCost tests r \<and>
   getTotalMaterialCost [] r = 0 \<and>
   getTotalMaterialCost (products @ [p]) r =
     (if rfpId_ProductRow p = r
      then getTotalMaterialCost products r + quantity_ProductRow p * unitPrice p
      else getTotalMaterialCost products r)"
  by (simp add: getGrandTotal_def getTotalMaterialCost_def getProductsByRFP_def)

theorem totals_by_row_witness:
  "getTotalMaterialCost [product_row ''1'' ''r'' (Finite 100) (decimal 1500)] ''r'' = Finite 150000 \<and>
   getTotalTestCost [test_row ''2'' ''r'' (Finite 1) (decimal 500)] ''r'' = Finite 500 \<and>
   getGrandTotal [product_row ''1'' ''r'' (Finite 100) (decimal 1500)]
     [test_row ''2'' ''r'' (Finite 1) (decimal 500)] ''r'' = Finite 150500"
proof -
  have d: "decimal 1500 = Finite 1500" "decimal 500 = Finite 500"
    by (simp_all add: number_eval)
  have m: "getTotalMaterialCost [product_row ''1'' ''r'' (Finite 100) (Finite 1500)] ''r'' = Finite 150000"
    using totals_by_row [of "[]" "[]" "''r''" "product_row ''1'' ''r'' (Finite 100) (Finite 1500)"]
    by (simp add: product_row_def) (simp add: number_eval)
  have t: "getTotalTestCost [test_row ''2'' ''r'' (Finite 1) (Finite 500)] ''r'' = Finite 500"
    by (simp add: store_eval) (simp add: number_eval)
  have "Finite 150000 + Finite 500 = Finite 150500"
    by (simp add: number_eval)
  with m t show ?thesis
    using totals_by_row [of "[product_row ''1'' ''r'' (Finite 100) (Finite 1500)]"
        "[test_row ''2'' ''r'' (Finite 1) (Finite 500)]" "''r''"]
    by (simp add: d)
qed

text \<open>
  C2 (as amended). The tests cost of an RFP is the sum, row by row, over the test rows of
  the RFP of the number of tests times the price per test: each price is multiplied by
  the test count of its row.
\<close>

theorem test_cost_counts_tests:
  "getTotalTestCost [] r = 0 \<and>
   getTotalTestCost (tests @ [t]) r =
     (if rfpId_TestRow t = r
      then getTotalTestCost tests r + numberOfTests t * pricePerTest t
      else getTotalTestCost tests r)"
  by (simp add: getTotalTestCost_def getTestsByRFP_def)

text \<open>
  The claim as stated, a plain sum of the prices with no test count, fails on a row of two
  tests at 500 each: the tests cost is 1000, the plain sum of the prices is 500.
\<close>

theorem test_cost_plain_sum_counterexample:
  "getTotalTestCost [test_row ''1'' ''r'' (Finite 2) (Finite 500)] ''r'' = Finite 1000 \<and>
   plain_test_price_sum [test_row ''1'' ''r'' (Finite 2) (Finite 500)] ''r'' = Finite 500 \<and>
   getTotalTestCost [test_row ''1'' ''r'' (Finite 2) (Finite 500)] ''r'' \<noteq>
   plain_test_price_sum [test_row ''1'' ''r'' (Finite 2) (Finite 500)] ''r''"
proof -
  have a: "getTotalTestCost [test_row ''1'' ''r'' (Finite 2) (Finite 500)] ''r'' = Finite 1000"
    by (simp add: store_eval) (simp add: number_eval)
  have b: "plain_test_price_sum [test_row ''1'' ''r'' (Finite 2) (Finite 500)] ''r'' = Finite 500"
    by (simp add: plain_test_price_sum_def store_eval) (simp add: number_eval)
  show ?thesis unfolding a b by simp
qed

theorem test_cost_counts_tests_witness:
  "getTotalTestCost [test_row ''1'' ''r'' (Finite 2) (Finite 500), test_row ''2'' ''q'' (Finite 9) (Finite 9)] ''r'' = Finite 1000"
proof -
  have a: "getTotalTestCost [test_row ''1'' ''r'' (Finite 2) (Finite 500)] ''r'' = Finite 1000"
    using test_cost_counts_tests [of "''r''" "[]" "test_row ''1'' ''r'' (Finite 2) (Finite 500)"]
    by (simp add: test_row_def) (simp add: number_eval)
  show ?thesis
    using test_cost_counts_tests [of "''r''" "[test_row ''1'' ''r'' (Finite 2) (Finite 500)]"
        "test_row ''2'' ''q'' (Finite 9) (Finite 9)"] a
    by (simp add: test_row_def)
qed



section \<open>Properties of the matching engine\<close>

lemma ranks_before_total: "ranks_before a b \<or> ranks_before b a"
  by (auto simp: ranks_before_def)

lemma ranks_before_trans: "ranks_before a b \<Longrightarrow> ranks_before b c \<Longrightarrow> ranks_before a c"
  by (auto simp: ranks_before_def)

lemma set_insert_ranked: "set (insert_ranked c ds) = insert c (set ds)"
  by (induction ds) auto

lemma sorted_insert_ranked:
  "sorted_wrt ranks_before ds \<Longrightarrow> sorted_wrt ranks_before (insert_ranked c ds)"
proof (induction ds)
  case Nil
  then show ?case by simp
next
  case (Cons d ds)
  show ?case
  proof (cases "ranks_before c d")
    case True
    then show ?thesis
      using Cons.prems by (auto intro: ranks_before_trans)
  next
    case False
    then have "ranks_before d c" using ranks_before_total by blast
    then show ?thesis
      using False Cons by (auto simp: set_insert_ranked)
  qed
qed

lemma sorted_rank: "sorted_wrt ranks_before (rank cs)"
  by (induction cs) (simp_all add: sorted_insert_ranked)

lemma length_rank: "length (rank cs) = length cs"
proof -
  have "length (insert_ranked c ds) = Suc (length ds)" for c ds
    by (induction ds) simp_all
  then show ?thesis by (induction cs) simp_all
qed

text \<open>
  C3. For every catalog and every requirement item, \<open>top_matches\<close> has at most three
  entries (three, or the whole catalog when it is smaller) and is sorted: an earlier entry
  has a match percent at least that of a later one, and of two entries with the same
  percent the one with the lexically smaller sku comes first.
\<close>

theorem top_matches_ranked:
  "length (top_matches (match vocabulary extract item catalog)) \<le> 3 \<and>
   length (top_matches (match vocabulary extract item catalog)) = min 3 (length catalog) \<and>
   (\<forall>i j. i < j \<and> j < length (top_matches (match vocabulary extract item catalog)) \<longrightarrow>
      (let a = top_matches (match vocabulary extract item catalog) ! i;
           b = top_matches (match vocabulary extract item catalog) ! j
       in match_percent b \<le> match_percent a \<and>
          (match_percent a = match_percent b \<longrightarrow> sku_MatchCandidate a \<le> sku_MatchCandidate b)))"
proof -
  define tm where "tm = top_matches (match vocabulary extract item catalog)"
  have tm: "tm = take 3 (rank (map (\<lambda>p. \<lparr> sku_MatchCandidate = sku p,
      match_percent = score (target_attributes vocabulary extract item) p \<rparr>) catalog))"
    by (simp add: tm_def match_def Let_def)
  have len: "length tm = min 3 (length catalog)"
    by (simp add: tm length_rank min.commute)
  have "sorted_wrt ranks_before tm"
    unfolding tm by (rule sorted_wrt_take) (rule sorted_rank)
  then have "ranks_before (tm ! i) (tm ! j)" if "i < j" "j < length tm" for i j
    using that by (simp add: sorted_wrt_iff_nth_less)
  then have pair: "match_percent (tm ! j) \<le> match_percent (tm ! i) \<and>
      (match_percent (tm ! i) = match_percent (tm ! j) \<longrightarrow>
         sku_MatchCandidate (tm ! i) \<le> sku_MatchCandidate (tm ! j))"
    if "i < j" "j < length tm" for i j
    using that by (fastforce simp: ranks_before_def)
  show ?thesis
    unfolding tm_def [symmetric] Let_def using len pair by simp
qed

lemma split_on_all: "\<forall>c\<in>set input. P c \<Longrightarrow> set (split_on P input) \<subseteq> {[]}"
  by (induction input) auto

lemma split_on_sub: "\<forall>c\<in>set input. Q c \<Longrightarrow> \<forall>w\<in>set (split_on P input). \<forall>c\<in>set w. Q c"
  by (induction input) (auto split: list.splits)

lemma tokens_blank: "\<forall>c\<in>set fragment. blank c \<Longrightarrow> tokens blank fragment = []"
  using split_on_all [of fragment blank] by (auto simp: tokens_def filter_empty_conv)

lemma parse_fragment_blank:
  "\<forall>c\<in>set fragment. blank c \<Longrightarrow> parse_fragment blank unit_token fragment = (1, [], [])"
  by (simp add: parse_fragment_def tokens_blank strip_list_marker_def)

lemma parse_requirements_blank:
  assumes "\<forall>c\<in>set input. blank c"
  shows "parse_requirements blank unit_token input = []"
proof -
  have "\<forall>f\<in>set (fragments input). \<forall>c\<in>set f. blank c"
    unfolding fragments_def using assms by (rule split_on_sub)
  then have "\<forall>f\<in>set (fragments input). parse_fragment blank unit_token f = (1, [], [])"
    by (simp add: parse_fragment_blank)
  then have "filter (\<lambda>(q, u, d). d \<noteq> [])
      (map (parse_fragment blank unit_token) (fragments input)) = []"
    by (auto simp: filter_empty_conv)
  then show ?thesis by (simp add: parse_requirements_def)
qed

lemma sample_targets:
  "target_attributes sample_vocabulary sample_extract sample_item =
   [(''conductor_material'', ''copper''), (''insulation'', ''XLPE''), (''cores'', ''3'')]"
  by (simp add: target_attributes_def sample_vocabulary_def sample_extract_def)

lemma sample_scores:
  "score [(''conductor_material'', ''copper''), (''insulation'', ''XLPE''), (''cores'', ''3'')]
     (sample_product ''SKU-010'' ''copper'' ''XLPE'' ''4'') = 200 / 3"
  "score [(''conductor_material'', ''copper''), (''insulation'', ''XLPE''), (''cores'', ''3'')]
     (sample_product ''SKU-001'' ''aluminium'' ''PVC'' ''4'') = 0"
  "score [(''conductor_material'', ''copper''), (''insulation'', ''XLPE''), (''cores'', ''3'')]
     (sample_product ''SKU-002'' ''copper'' ''XLPE'' ''2'') = 200 / 3"
  "score [(''conductor_material'', ''copper''), (''insulation'', ''XLPE''), (''cores'', ''3'')]
     (sample_product ''SKU-007'' ''copper'' ''PVC'' ''4'') = 100 / 3"
  by (simp_all add: score_def sample_product_def)

lemma sample_rank:
  "rank [\<lparr> sku_MatchCandidate = ''SKU-010'', match_percent = 200 / 3 \<rparr>,
         \<lparr> sku_MatchCandidate = ''SKU-001'', match_percent = 0 \<rparr>,
         \<lparr> sku_MatchCandidate = ''SKU-002'', match_percent = 200 / 3 \<rparr>,
         \<lparr> sku_MatchCandidate = ''SKU-007'', match_percent = 100 / 3 \<rparr>] =
        [\<lparr> sku_MatchCandidate = ''SKU-002'', match_percent = 200 / 3 \<rparr>,
         \<lparr> sku_MatchCandidate = ''SKU-010'', match_percent = 200 / 3 \<rparr>,
         \<lparr> sku_MatchCandidate = ''SKU-007'', match_percent = 100 / 3 \<rparr>,
         \<lparr> sku_MatchCandidate = ''SKU-001'', match_percent = 0 \<rparr>]"
  by (simp add: ranks_before_def)

lemma sku_sample_product: "sku (sample_product s m i c) = s"
  by (simp add: sample_product_def)

lemma sample_top_matches:
  "top_matches (match sample_vocabulary sample_extract sample_item sample_catalog) =
     [\<lparr> sku_MatchCandidate = ''SKU-002'', match_percent = 200 / 3 \<rparr>,
      \<lparr> sku_MatchCandidate = ''SKU-010'', match_percent = 200 / 3 \<rparr>,
      \<lparr> sku_MatchCandidate = ''SKU-007'', match_percent = 100 / 3 \<rparr>]"
  unfolding match_def Let_def sample_targets sample_catalog_def
  by (simp only: list.map sample_scores sample_rank sku_sample_product) simp

lemma sample_chosen_sku:
  "chosen_sku (match sample_vocabulary sample_extract sample_item sample_catalog) = Some ''SKU-002''"
  unfolding match_def Let_def sample_targets sample_catalog_def
  by (simp only: list.map sample_scores sample_rank sku_sample_product) simp

theorem top_matches_ranked_witness:
  "top_matches (match sample_vocabulary sample_extract sample_item sample_catalog) =
     [\<lparr> sku_MatchCandidate = ''SKU-002'', match_percent = 200 / 3 \<rparr>,
      \<lparr> sku_MatchCandidate = ''SKU-010'', match_percent = 200 / 3 \<rparr>,
      \<lparr> sku_MatchCandidate = ''SKU-007'', match_percent = 100 / 3 \<rparr>] \<and>
   chosen_sku (match sample_vocabulary sample_extract sample_item sample_catalog) = Some ''SKU-002'' \<and>
   length sample_catalog = 4 \<and>
   sku_MatchCandidate (top_matches (match sample_vocabulary sample_extract sample_item sample_catalog) ! 0)
     \<le> sku_MatchCandidate (top_matches (match sample_vocabulary sample_extract sample_item sample_catalog) ! 1)"
proof -
  have "(0::nat) < 1 \<and> 1 < length (top_matches (match sample_vocabulary sample_extract sample_item sample_catalog))"
    by (simp add: sample_top_matches)
  moreover have "match_percent (top_matches (match sample_vocabulary sample_extract sample_item sample_catalog) ! 0) =
      match_percent (top_matches (match sample_vocabulary sample_extract sample_item sample_catalog) ! 1)"
    by (simp add: sample_top_matches)
  ultimately have "sku_MatchCandidate (top_matches (match sample_vocabulary sample_extract sample_item sample_catalog) ! 0)
     \<le> sku_MatchCandidate (top_matches (match sample_vocabulary sample_extract sample_item sample_catalog) ! 1)"
    using top_matches_ranked [of sample_vocabulary sample_extract sample_item sample_catalog]
    unfolding Let_def by blast
  moreover have "length sample_catalog = 4"
    by (simp add: sample_catalog_def)
  ultimately show ?thesis
    by (simp add: sample_top_matches sample_chosen_sku)
qed

section \<open>Properties of the parser, the consolidation and empty totals\<close>

lemma zero_plus_zero_number: "(0::number) + 0 = 0"
  by (simp add: zero_number_def round_double_def)

text \<open>
  C7. A requirement text that is empty or made of whitespace only, whatever the class of
  whitespace characters, parses to the empty sequence, and the final bid built from it
  has no technical items, no pricing lines and a total bid value of \<open>0\<close>. In the pricing
  store, an RFP that no product row and no test row of the store belongs to has no rows
  selected, and its material cost, its tests cost and its grand total are \<open>0\<close>.
\<close>

theorem no_items_no_cost:
  "((\<forall>c\<in>set scope. blank c) \<longrightarrow>
      parse_requirements blank unit_token scope = [] \<and>
      technical_items
        (consolidate vocabulary extract blank unit_token catalog ident name due scope narrative) = [] \<and>
      pricing
        (consolidate vocabulary extract blank unit_token catalog ident name due scope narrative) = [] \<and>
      total_bid_value
        (consolidate vocabulary extract blank unit_token catalog ident name due scope narrative) = 0) \<and>
   ((\<forall>p\<in>set products. rfpId_ProductRow p \<noteq> r) \<and> (\<forall>t\<in>set tests. rfpId_TestRow t \<noteq> r) \<longrightarrow>
      getProductsByRFP products r = [] \<and> getTestsByRFP tests r = [] \<and>
      getTotalMaterialCost products r = 0 \<and> getTotalTestCost tests r = 0 \<and>
      getGrandTotal products tests r = 0)"
proof -
  have "parse_requirements blank unit_token scope = []" if "\<forall>c\<in>set scope. blank c"
    using that by (rule parse_requirements_blank)
  then have bid: "(\<forall>c\<in>set scope. blank c) \<longrightarrow>
      parse_requirements blank unit_token scope = [] \<and>
      technical_items
        (consolidate vocabulary extract blank unit_token catalog ident name due scope narrative) = [] \<and>
      pricing
        (consolidate vocabulary extract blank unit_token catalog ident name due scope narrative) = [] \<and>
      total_bid_value
        (consolidate vocabulary extract blank unit_token catalog ident name due scope narrative) = 0"
    by (simp add: consolidate_def)
  have none: "getProductsByRFP products r = [] \<and> getTestsByRFP tests r = []"
    if "(\<forall>p\<in>set products. rfpId_ProductRow p \<noteq> r) \<and> (\<forall>t\<in>set tests. rfpId_TestRow t \<noteq> r)"
    using that by (simp add: getProductsByRFP_def getTestsByRFP_def filter_empty_conv)
  have totals: "(\<forall>p\<in>set products. rfpId_ProductRow p \<noteq> r) \<and>
      (\<forall>t\<in>set tests. rfpId_TestRow t \<noteq> r) \<longrightarrow>
      getProductsByRFP products r = [] \<and> getTestsByRFP tests r = [] \<and>
      getTotalMaterialCost products r = 0 \<and> getTotalTestCost tests r = 0 \<and>
      getGrandTotal products tests r = 0"
    using none
    by (simp add: getTotalMaterialCost_def getTotalTestCost_def getGrandTotal_def
        zero_plus_zero_number)
  from bid totals show ?thesis by (rule conjI)
qed

lemma blank_scope_spaces: "list_all is_space blank_scope"
  by (simp add: blank_scope_def is_space_def)

theorem no_items_no_cost_witness:
  "list_all is_space blank_scope \<and>
   parse_requirements is_space (\<lambda>u. u = ''m'') blank_scope = [] \<and>
   technical_items (consolidate sample_vocabulary sample_extract is_space (\<lambda>u. u = ''m'')
      sample_store_catalog ''RFP-2025-001'' ''Supply of cables'' ''2025-02-15'' blank_scope ''none'') = [] \<and>
   pricing (consolidate sample_vocabulary sample_extract is_space (\<lambda>u. u = ''m'')
      sample_store_catalog ''RFP-2025-001'' ''Supply of cables'' ''2025-02-15'' blank_scope ''none'') = [] \<and>
   total_bid_value (consolidate sample_vocabulary sample_extract is_space (\<lambda>u. u = ''m'')
      sample_store_catalog ''RFP-2025-001'' ''Supply of cables'' ''2025-02-15'' blank_scope ''none'') = 0 \<and>
   ''r'' \<notin> set (map rfpId_ProductRow [product_row ''1'' ''other'' (Finite 2) (Finite 3)]) \<and>
   ''r'' \<notin> set (map rfpId_TestRow [test_row ''2'' ''other'' (Finite 9) (Finite 9)]) \<and>
   getProductsByRFP [product_row ''1'' ''other'' (Finite 2) (Finite 3)] ''r'' = [] \<and>
   getTestsByRFP [test_row ''2'' ''other'' (Finite 9) (Finite 9)] ''r'' = [] \<and>
   getTotalTestCost [test_row ''2'' ''other'' (Finite 9) (Finite 9)] ''r'' = 0 \<and>
   getGrandTotal [product_row ''1'' ''other'' (Finite 2) (Finite 3)]
     [test_row ''2'' ''other'' (Finite 9) (Finite 9)] ''r'' = 0"
proof -
  have a: "\<forall>c\<in>set blank_scope. is_space c"
    using blank_scope_spaces by (simp add: list_all_iff)
  have b: "(\<forall>p\<in>set [product_row ''1'' ''other'' (Finite 2) (Finite 3)]. rfpId_ProductRow p \<noteq> ''r'') \<and>
      (\<forall>t\<in>set [test_row ''2'' ''other'' (Finite 9) (Finite 9)]. rfpId_TestRow t \<noteq> ''r'')"
    by (simp add: product_row_def test_row_def)
  note t = no_items_no_cost [of blank_scope is_space "\<lambda>u. u = ''m''" sample_vocabulary sample_extract
        sample_store_catalog "''RFP-2025-001''" "''Supply of cables''" "''2025-02-15''" "''none''"
        "[product_row ''1'' ''other'' (Finite 2) (Finite 3)]" "''r''"
        "[test_row ''2'' ''other'' (Finite 9) (Finite 9)]"]
  from t [THEN conjunct1, THEN mp, OF a] t [THEN conjunct2, THEN mp, OF b]
    blank_scope_spaces b
  show ?thesis by auto
qed

section \<open>Properties of the orchestrator and of the workflow page\<close>

text \<open>
  C4. \<open>executeNext\<close> on an unknown workflow id fails with \<open>NotFoundError\<close>, and on an
  instance whose final response is set with \<open>AlreadyCompletedError\<close>. A call on the last
  step (\<open>current_step + 1\<close> is the number of steps) whose component succeeds stores an
  instance with a final response, after which every call for that id fails with
  \<open>AlreadyCompletedError\<close>. On the page, the button that executes the next step is not
  rendered once the final response is there.
\<close>

theorem executeNext_completion:
  "(store wid = None \<longrightarrow> executeNext run assemble store wid = Inl NotFoundError) \<and>
   (\<forall>w. store wid = Some w \<and> final_response_WorkflowInstance w \<noteq> None \<longrightarrow>
        executeNext run assemble store wid = Inl AlreadyCompletedError) \<and>
   (\<forall>w out sm.
      store wid = Some w \<and> final_response_WorkflowInstance w = None \<and>
      current_step_WorkflowInstance w + 1 = length (steps_WorkflowInstance w) \<and>
      run (current_step_WorkflowInstance w) (map output_WorkflowStep (steps_WorkflowInstance w)) =
        StepSucceeded out sm \<longrightarrow>
      (\<exists>w' store'.
         executeNext run assemble store wid = Inr (w', store') \<and> store' wid = Some w' \<and>
         final_response_WorkflowInstance w' \<noteq> None \<and>
         current_step_WorkflowInstance w' = length (steps_WorkflowInstance w') \<and>
         (\<forall>run' assemble'. executeNext run' assemble' store' wid = Inl AlreadyCompletedError))) \<and>
   (\<forall>fields. final_response workflow = Some (JObject fields) \<longrightarrow>
      executeNextButton isExecuting workflow = NotRendered)"
proof (intro conjI allI impI)
  assume "store wid = None"
  then show "executeNext run assemble store wid = Inl NotFoundError"
    by (simp add: executeNext_def)
next
  fix w
  assume "store wid = Some w \<and> final_response_WorkflowInstance w \<noteq> None"
  then show "executeNext run assemble store wid = Inl AlreadyCompletedError"
    by (auto simp: executeNext_def)
next
  fix w out sm
  assume a: "store wid = Some w \<and> final_response_WorkflowInstance w = None \<and>
      current_step_WorkflowInstance w + 1 = length (steps_WorkflowInstance w) \<and>
      run (current_step_WorkflowInstance w) (map output_WorkflowStep (steps_WorkflowInstance w)) =
        StepSucceeded out sm"
  define i where "i = current_step_WorkflowInstance w"
  define ss where "ss = (steps_WorkflowInstance w)[i := (steps_WorkflowInstance w ! i)
      \<lparr> status := completed, output_WorkflowStep := Some out, summary := Some sm \<rparr>]"
  define w' where "w' = w\<lparr> steps_WorkflowInstance := ss, current_step_WorkflowInstance := i + 1,
      final_response_WorkflowInstance := Some (assemble (map output_WorkflowStep ss)) \<rparr>"
  have run: "executeNext run assemble store wid = Inr (w', store(wid \<mapsto> w'))"
    using a by (simp add: executeNext_def Let_def i_def ss_def w'_def)
  have again: "executeNext run' assemble' (store(wid \<mapsto> w')) wid = Inl AlreadyCompletedError"
    for run' assemble'
    by (simp add: executeNext_def w'_def)
  have "current_step_WorkflowInstance w' = length (steps_WorkflowInstance w')"
    using a by (simp add: w'_def ss_def i_def)
  with run again show "\<exists>w' store'.
         executeNext run assemble store wid = Inr (w', store') \<and> store' wid = Some w' \<and>
         final_response_WorkflowInstance w' \<noteq> None \<and>
         current_step_WorkflowInstance w' = length (steps_WorkflowInstance w') \<and>
         (\<forall>run' assemble'. executeNext run' assemble' store' wid = Inl AlreadyCompletedError)"
    by (intro exI [of _ w'] exI [of _ "store(wid \<mapsto> w')"]) (simp add: w'_def)
next
  fix fields
  assume "final_response workflow = Some (JObject fields)"
  then show "executeNextButton isExecuting workflow = NotRendered"
    by (simp add: executeNextButton_def)
qed

text \<open>
  C5. On an instance with a step left and no final response: when the component of the
  step at \<open>current_step\<close> fails, \<open>executeNext\<close> keeps \<open>current_step\<close>, marks that step
  \<open>error\<close> with the error text and keeps the recorded outputs, so that the next call runs
  the component of the same step on the same outputs (it repeats the result when the
  component fails again, and completes the step and advances when it succeeds). When
  the component succeeds, the step becomes \<open>completed\<close> with its output and summary and
  \<open>current_step\<close> advances by exactly one.
\<close>

theorem executeNext_step_outcome:
  "\<forall>w. store wid = Some w \<and> final_response_WorkflowInstance w = None \<and>
        current_step_WorkflowInstance w < length (steps_WorkflowInstance w) \<longrightarrow>
     (\<forall>msg. run (current_step_WorkflowInstance w) (map output_WorkflowStep (steps_WorkflowInstance w)) =
              StepFailed msg \<longrightarrow>
        (\<exists>w' store'.
           executeNext run assemble store wid = Inr (w', store') \<and> store' wid = Some w' \<and>
           current_step_WorkflowInstance w' = current_step_WorkflowInstance w \<and>
           final_response_WorkflowInstance w' = None \<and>
           length (steps_WorkflowInstance w') = length (steps_WorkflowInstance w) \<and>
           status (steps_WorkflowInstance w' ! current_step_WorkflowInstance w) = error \<and>
           error_WorkflowStep (steps_WorkflowInstance w' ! current_step_WorkflowInstance w) = Some msg \<and>
           map output_WorkflowStep (steps_WorkflowInstance w') =
             map output_WorkflowStep (steps_WorkflowInstance w) \<and>
           (\<forall>run'. run' (current_step_WorkflowInstance w)
                       (map output_WorkflowStep (steps_WorkflowInstance w)) =
                     run (current_step_WorkflowInstance w)
                       (map output_WorkflowStep (steps_WorkflowInstance w)) \<longrightarrow>
              executeNext run' assemble store' wid = Inr (w', store')) \<and>
           (\<forall>run' out sm. run' (current_step_WorkflowInstance w)
                       (map output_WorkflowStep (steps_WorkflowInstance w)) = StepSucceeded out sm \<longrightarrow>
              (\<exists>w'' store''.
                 executeNext run' assemble store' wid = Inr (w'', store'') \<and>
                 current_step_WorkflowInstance w'' = current_step_WorkflowInstance w + 1 \<and>
                 status (steps_WorkflowInstance w'' ! current_step_WorkflowInstance w) = completed)))) \<and>
     (\<forall>out sm. run (current_step_WorkflowInstance w) (map output_WorkflowStep (steps_WorkflowInstance w)) =
              StepSucceeded out sm \<longrightarrow>
        (\<exists>w' store'.
           executeNext run assemble store wid = Inr (w', store') \<and> store' wid = Some w' \<and>
           current_step_WorkflowInstance w' = current_step_WorkflowInstance w + 1 \<and>
           status (steps_WorkflowInstance w' ! current_step_WorkflowInstance w) = completed \<and>
           output_WorkflowStep (steps_WorkflowInstance w' ! current_step_WorkflowInstance w) = Some out \<and>
           summary (steps_WorkflowInstance w' ! current_step_WorkflowInstance w) = Some sm))"
proof (intro allI impI conjI)
  fix w msg
  assume a: "store wid = Some w \<and> final_response_WorkflowInstance w = None \<and>
        current_step_WorkflowInstance w < length (steps_WorkflowInstance w)"
    and f: "run (current_step_WorkflowInstance w) (map output_WorkflowStep (steps_WorkflowInstance w)) =
              StepFailed msg"
  define i where "i = current_step_WorkflowInstance w"
  define ss where "ss = steps_WorkflowInstance w"
  define w' where "w' = w\<lparr> steps_WorkflowInstance :=
      ss[i := (ss ! i)\<lparr> status := error, error_WorkflowStep := Some msg \<rparr>] \<rparr>"
  have i: "i < length ss" using a by (simp add: i_def ss_def)
  have outs: "map output_WorkflowStep (steps_WorkflowInstance w') = map output_WorkflowStep ss"
    using i by (simp add: w'_def map_update list_update_same_conv)
  have 1: "executeNext run assemble store wid = Inr (w', store(wid \<mapsto> w'))"
    using a f by (simp add: executeNext_def Let_def i_def ss_def w'_def)
  have w'': "w'\<lparr> steps_WorkflowInstance := (steps_WorkflowInstance w')
        [i := (steps_WorkflowInstance w' ! i)\<lparr> status := error, error_WorkflowStep := Some msg \<rparr>] \<rparr> = w'"
    using i by (simp add: w'_def)
  have 2: "executeNext run' assemble (store(wid \<mapsto> w')) wid = Inr (w', store(wid \<mapsto> w'))"
    if "run' i (map output_WorkflowStep ss) = run i (map output_WorkflowStep ss)" for run'
  proof -
    have "run' i (map output_WorkflowStep (steps_WorkflowInstance w')) = StepFailed msg"
      using that f unfolding outs by (simp add: i_def ss_def)
    moreover have "current_step_WorkflowInstance w' = i" "final_response_WorkflowInstance w' = None"
      "i < length (steps_WorkflowInstance w')"
      using a i by (simp_all add: w'_def i_def)
    ultimately show ?thesis
      using w'' by (simp add: executeNext_def Let_def)
  qed
  have 3: "\<exists>w'' store''.
      executeNext run' assemble (store(wid \<mapsto> w')) wid = Inr (w'', store'') \<and>
      current_step_WorkflowInstance w'' = i + 1 \<and>
      status (steps_WorkflowInstance w'' ! i) = completed"
    if "run' i (map output_WorkflowStep ss) = StepSucceeded out sm" for run' out sm
  proof -
    have "run' i (map output_WorkflowStep (steps_WorkflowInstance w')) = StepSucceeded out sm"
      using that unfolding outs .
    moreover have "current_step_WorkflowInstance w' = i" "final_response_WorkflowInstance w' = None"
      "i < length (steps_WorkflowInstance w')"
      using a i by (simp_all add: w'_def i_def)
    ultimately show ?thesis
      by (simp add: executeNext_def Let_def)
  qed
  show "\<exists>w' store'.
           executeNext run assemble store wid = Inr (w', store') \<and> store' wid = Some w' \<and>
           current_step_WorkflowInstance w' = current_step_WorkflowInstance w \<and>
           final_response_WorkflowInstance w' = None \<and>
           length (steps_WorkflowInstance w') = length (steps_WorkflowInstance w) \<and>
           status (steps_WorkflowInstance w' ! current_step_WorkflowInstance w) = error \<and>
           error_WorkflowStep (steps_WorkflowInstance w' ! current_step_WorkflowInstance w) = Some msg \<and>
           map output_WorkflowStep (steps_WorkflowInstance w') =
             map output_WorkflowStep (steps_WorkflowInstance w) \<and>
           (\<forall>run'. run' (current_step_WorkflowInstance w)
                       (map output_WorkflowStep (steps_WorkflowInstance w)) =
                     run (current_step_WorkflowInstance w)
                       (map output_WorkflowStep (steps_WorkflowInstance w)) \<longrightarrow>
              executeNext run' assemble store' wid = Inr (w', store')) \<and>
           (\<forall>run' out sm. run' (current_step_WorkflowInstance w)
                       (map output_WorkflowStep (steps_WorkflowInstance w)) = StepSucceeded out sm \<longrightarrow>
              (\<exists>w'' store''.
                 executeNext run' assemble store' wid = Inr (w'', store'') \<and>
                 current_step_WorkflowInstance w'' = current_step_WorkflowInstance w + 1 \<and>
                 status (steps_WorkflowInstance w'' ! current_step_WorkflowInstance w) = completed))"
  proof (intro exI [of _ w'] exI [of _ "store(wid \<mapsto> w')"] conjI)
    show "executeNext run assemble store wid = Inr (w', store(wid \<mapsto> w'))" by (rule 1)
    show "\<forall>run'. run' (current_step_WorkflowInstance w)
                       (map output_WorkflowStep (steps_WorkflowInstance w)) =
                     run (current_step_WorkflowInstance w)
                       (map output_WorkflowStep (steps_WorkflowInstance w)) \<longrightarrow>
              executeNext run' assemble (store(wid \<mapsto> w')) wid = Inr (w', store(wid \<mapsto> w'))"
      using 2 by (simp add: i_def ss_def)
    show "\<forall>run' out sm. run' (current_step_WorkflowInstance w)
                       (map output_WorkflowStep (steps_WorkflowInstance w)) = StepSucceeded out sm \<longrightarrow>
              (\<exists>w'' store''.
                 executeNext run' assemble (store(wid \<mapsto> w')) wid = Inr (w'', store'') \<and>
                 current_step_WorkflowInstance w'' = current_step_WorkflowInstance w + 1 \<and>
                 status (steps_WorkflowInstance w'' ! current_step_WorkflowInstance w) = completed)"
      using 3 unfolding i_def ss_def by blast
    show "map output_WorkflowStep (steps_WorkflowInstance w') =
             map output_WorkflowStep (steps_WorkflowInstance w)"
      using outs by (simp add: ss_def)
  qed (use i a in \<open>simp_all add: w'_def i_def ss_def\<close>)
next
  fix w out sm
  assume a: "store wid = Some w \<and> final_response_WorkflowInstance w = None \<and>
        current_step_WorkflowInstance w < length (steps_WorkflowInstance w)"
    and s: "run (current_step_WorkflowInstance w) (map output_WorkflowStep (steps_WorkflowInstance w)) =
              StepSucceeded out sm"
  then show "\<exists>w' store'.
           executeNext run assemble store wid = Inr (w', store') \<and> store' wid = Some w' \<and>
           current_step_WorkflowInstance w' = current_step_WorkflowInstance w + 1 \<and>
           status (steps_WorkflowInstance w' ! current_step_WorkflowInstance w) = completed \<and>
           output_WorkflowStep (steps_WorkflowInstance w' ! current_step_WorkflowInstance w) = Some out \<and>
           summary (steps_WorkflowInstance w' ! current_step_WorkflowInstance w) = Some sm"
    by (simp add: executeNext_def Let_def)
qed









lemma sample_instance_facts:
  "sample_workflows n ''wf-1'' = Some (sample_instance n)"
  "sample_workflows n ''wf-9'' = None"
  "final_response_WorkflowInstance (sample_instance n) = None"
  "length (steps_WorkflowInstance (sample_instance n)) = 2"
  "current_step_WorkflowInstance (sample_instance n) = n"
  by (simp_all add: sample_workflows_def sample_instance_def start_def sample_plan_def Let_def)

theorem executeNext_completion_witness:
  "sample_workflows 1 ''wf-1'' = Some (sample_instance 1) \<and>
   final_response_WorkflowInstance (sample_instance 1) = None \<and>
   current_step_WorkflowInstance (sample_instance 1) + 1 =
     length (steps_WorkflowInstance (sample_instance 1)) \<and>
   (\<exists>w' store'.
      executeNext succeeding outputs_as_bid (sample_workflows 1) ''wf-1'' = Inr (w', store') \<and>
      final_response_WorkflowInstance w' \<noteq> None \<and>
      executeNext succeeding outputs_as_bid store' ''wf-1'' = Inl AlreadyCompletedError) \<and>
   sample_workflows 1 ''wf-9'' = None \<and>
   executeNext succeeding outputs_as_bid (sample_workflows 1) ''wf-9'' = Inl NotFoundError \<and>
   final_response (sample_progress (Finite 6)\<lparr> final_response := Some (JObject []) \<rparr>) =
     Some (JObject []) \<and>
   executeNextButton False (sample_progress (Finite 6)\<lparr> final_response := Some (JObject []) \<rparr>) =
     NotRendered"
proof -
  have h: "sample_workflows 1 ''wf-1'' = Some (sample_instance 1) \<and>
      final_response_WorkflowInstance (sample_instance 1) = None \<and>
      current_step_WorkflowInstance (sample_instance 1) + 1 =
        length (steps_WorkflowInstance (sample_instance 1)) \<and>
      succeeding (current_step_WorkflowInstance (sample_instance 1))
        (map output_WorkflowStep (steps_WorkflowInstance (sample_instance 1))) =
        StepSucceeded (JObject []) ''done''"
    by (simp add: sample_instance_facts succeeding_def)
  have f: "final_response (sample_progress (Finite 6)\<lparr> final_response := Some (JObject []) \<rparr>) =
      Some (JObject [])"
    by simp
  note c = executeNext_completion [of "sample_workflows 1" "''wf-1''" succeeding outputs_as_bid
      "sample_progress (Finite 6)\<lparr> final_response := Some (JObject []) \<rparr>" False]
  from c [THEN conjunct2, THEN conjunct2, THEN conjunct1, rule_format, OF h]
  have "\<exists>w' store'.
      executeNext succeeding outputs_as_bid (sample_workflows 1) ''wf-1'' = Inr (w', store') \<and>
      final_response_WorkflowInstance w' \<noteq> None \<and>
      executeNext succeeding outputs_as_bid store' ''wf-1'' = Inl AlreadyCompletedError"
    by blast
  moreover from c [THEN conjunct2, THEN conjunct2, THEN conjunct2, rule_format, OF f]
  have "executeNextButton False (sample_progress (Finite 6)\<lparr> final_response := Some (JObject []) \<rparr>) =
      NotRendered" .
  moreover
  have "executeNext succeeding outputs_as_bid (sample_workflows 1) ''wf-9'' = Inl NotFoundError"
    using executeNext_completion [of "sample_workflows 1" "''wf-9''" succeeding outputs_as_bid]
    by (simp add: sample_instance_facts)
  ultimately show ?thesis
    using h f by (simp add: sample_instance_facts)
qed

theorem executeNext_step_outcome_witness:
  "sample_workflows 0 ''wf-1'' = Some (sample_instance 0) \<and>
   final_response_WorkflowInstance (sample_instance 0) = None \<and>
   current_step_WorkflowInstance (sample_instance 0) < length (steps_WorkflowInstance (sample_instance 0)) \<and>
   (\<exists>w' store'.
      executeNext failing outputs_as_bid (sample_workflows 0) ''wf-1'' = Inr (w', store') \<and>
      current_step_WorkflowInstance w' = 0 \<and>
      status (steps_WorkflowInstance w' ! 0) = error \<and>
      error_WorkflowStep (steps_WorkflowInstance w' ! 0) = Some ''timeout'' \<and>
      executeNext failing outputs_as_bid store' ''wf-1'' = Inr (w', store') \<and>
      (\<exists>w'' store''.
         executeNext succeeding outputs_as_bid store' ''wf-1'' = Inr (w'', store'') \<and>
         current_step_WorkflowInstance w'' = 1 \<and>
         status (steps_WorkflowInstance w'' ! 0) = completed)) \<and>
   (\<exists>w' store'.
      executeNext succeeding outputs_as_bid (sample_workflows 0) ''wf-1'' = Inr (w', store') \<and>
      current_step_WorkflowInstance w' = 1 \<and>
      status (steps_WorkflowInstance w' ! 0) = completed)"
proof -
  have h: "sample_workflows 0 ''wf-1'' = Some (sample_instance 0) \<and>
      final_response_WorkflowInstance (sample_instance 0) = None \<and>
      current_step_WorkflowInstance (sample_instance 0) < length (steps_WorkflowInstance (sample_instance 0))"
    by (simp add: sample_instance_facts)
  have f: "failing (current_step_WorkflowInstance (sample_instance 0))
        (map output_WorkflowStep (steps_WorkflowInstance (sample_instance 0))) = StepFailed ''timeout''"
    by (simp add: failing_def)
  have s: "succeeding (current_step_WorkflowInstance (sample_instance 0))
        (map output_WorkflowStep (steps_WorkflowInstance (sample_instance 0))) =
        StepSucceeded (JObject []) ''done''"
    by (simp add: succeeding_def)
  note fail = executeNext_step_outcome [of "sample_workflows 0" "''wf-1''" failing outputs_as_bid,
      rule_format, OF h, THEN conjunct1, rule_format, OF f]
  then obtain w' store' where
    r: "executeNext failing outputs_as_bid (sample_workflows 0) ''wf-1'' = Inr (w', store')"
    and c: "current_step_WorkflowInstance w' = current_step_WorkflowInstance (sample_instance 0)"
    and e: "status (steps_WorkflowInstance w' ! current_step_WorkflowInstance (sample_instance 0)) = error"
      "error_WorkflowStep (steps_WorkflowInstance w' ! current_step_WorkflowInstance (sample_instance 0)) =
        Some ''timeout''"
    and again: "\<forall>run'. run' (current_step_WorkflowInstance (sample_instance 0))
                       (map output_WorkflowStep (steps_WorkflowInstance (sample_instance 0))) =
                     failing (current_step_WorkflowInstance (sample_instance 0))
                       (map output_WorkflowStep (steps_WorkflowInstance (sample_instance 0))) \<longrightarrow>
              executeNext run' outputs_as_bid store' ''wf-1'' = Inr (w', store')"
    and later: "\<forall>run' out sm. run' (current_step_WorkflowInstance (sample_instance 0))
                       (map output_WorkflowStep (steps_WorkflowInstance (sample_instance 0))) =
                     StepSucceeded out sm \<longrightarrow>
              (\<exists>w'' store''.
                 executeNext run' outputs_as_bid store' ''wf-1'' = Inr (w'', store'') \<and>
                 current_step_WorkflowInstance w'' = current_step_WorkflowInstance (sample_instance 0) + 1 \<and>
                 status (steps_WorkflowInstance w'' ! current_step_WorkflowInstance (sample_instance 0)) =
                   completed)"
    by blast
  from again have retry: "executeNext failing outputs_as_bid store' ''wf-1'' = Inr (w', store')"
    by simp
  from later [rule_format, of succeeding, OF s] r c e retry
  have 1: "\<exists>w' store'.
      executeNext failing outputs_as_bid (sample_workflows 0) ''wf-1'' = Inr (w', store') \<and>
      current_step_WorkflowInstance w' = current_step_WorkflowInstance (sample_instance 0) \<and>
      status (steps_WorkflowInstance w' ! current_step_WorkflowInstance (sample_instance 0)) = error \<and>
      error_WorkflowStep (steps_WorkflowInstance w' ! current_step_WorkflowInstance (sample_instance 0)) =
        Some ''timeout'' \<and>
      executeNext failing outputs_as_bid store' ''wf-1'' = Inr (w', store') \<and>
      (\<exists>w'' store''.
         executeNext succeeding outputs_as_bid store' ''wf-1'' = Inr (w'', store'') \<and>
         current_step_WorkflowInstance w'' = current_step_WorkflowInstance (sample_instance 0) + 1 \<and>
         status (steps_WorkflowInstance w'' ! current_step_WorkflowInstance (sample_instance 0)) = completed)"
    by (intro exI [of _ w'] exI [of _ store']) simp
  note ok = executeNext_step_outcome [of "sample_workflows 0" "''wf-1''" succeeding outputs_as_bid,
      rule_format, OF h, THEN conjunct2, rule_format, OF s]
  then have 2: "\<exists>w' store'.
      executeNext succeeding outputs_as_bid (sample_workflows 0) ''wf-1'' = Inr (w', store') \<and>
      current_step_WorkflowInstance w' = current_step_WorkflowInstance (sample_instance 0) + 1 \<and>
      status (steps_WorkflowInstance w' ! current_step_WorkflowInstance (sample_instance 0)) = completed"
    by blast
  from 1 2 h show ?thesis
    by (simp add: sample_instance_facts)
qed

lemma start_in_range:
  "plan \<noteq> [] \<Longrightarrow>
   current_step_WorkflowInstance (fst (start wid plan store)) <
     length (steps_WorkflowInstance (fst (start wid plan store))) \<and>
   final_response_WorkflowInstance (fst (start wid plan store)) = None"
  by (simp add: start_def Let_def)

lemma executeNext_in_range:
  assumes "store wid = Some w"
    and "final_response_WorkflowInstance w = None \<longrightarrow>
         current_step_WorkflowInstance w < length (steps_WorkflowInstance w)"
    and "executeNext run assemble store wid = Inr (w', store')"
  shows "(final_response_WorkflowInstance w' = None \<longrightarrow>
          current_step_WorkflowInstance w' < length (steps_WorkflowInstance w')) \<and>
         current_step_WorkflowInstance w' \<le> length (steps_WorkflowInstance w')"
  using assms
  by (auto simp: executeNext_def Let_def split: if_splits StepOutcome.splits)

end
